theory Spec2Isabelle
  imports Complex_Main
begin

section \<open>Conventions\<close>

text \<open>
  The plotting toolkit computes with Python floats. They are modelled as \<^typ>\<open>real\<close>
  (exact arithmetic): rounding, infinities and NaN are outside the model. What Python
  raises is a value: every operation returns an \<open>outcome\<close> next to the state it
  leaves behind, so that a state mutated before an exception stays mutated.
\<close>

datatype error = ZeroDivisionError | NameError | NotImplementedError | IndexError | TypeError

datatype outcome = Returned | Raised error

text \<open>Python's float division: \<open>a / b\<close> raises \<open>ZeroDivisionError\<close> when \<open>b\<close> is zero.\<close>

definition py_div :: "real \<Rightarrow> real \<Rightarrow> error + real" where
  "py_div a b = (if b = 0 then Inl ZeroDivisionError else Inr (a / b))"

section \<open>The zoom tool: \<open>chaco/tools/better_zoom.py\<close>\<close>

subsection \<open>Data\<close>

text \<open>
  A mapper's \<open>range\<close> as the tool uses it: the two numbers \<open>mapper.range.low\<close> and
  \<open>mapper.range.high\<close>.
\<close>

record mapper_range =
  low :: real
  high :: real

record mapper =
  range_of :: mapper_range

text \<open>
  \<open>component.index_mapper\<close> is either a one-dimensional mapper or a \<open>GridMapper\<close>
  holding \<open>_xmapper\<close> and \<open>_ymapper\<close>.
\<close>

datatype index_mapper_t = Mapper1D mapper | GridMapper mapper mapper

datatype orientation_t = H | V

datatype axis_t = Both | Index | Value

record component_t =
  orientation :: orientation_t
  index_mapper :: index_mapper_t
  value_mapper :: mapper
  bounds :: "real \<times> real"

text \<open>
  The states of the history. \<open>ZoomState\<close> and \<open>PanState\<close> carry \<open>prev\<close> and
  \<open>next\<close>; a \<open>GroupedToolState\<close> carries its list of states.
\<close>

datatype tool_state =
    ZoomState "real \<times> real" "real \<times> real"
  | PanState "real \<times> real" "real \<times> real"
  | GroupedToolState "tool_state list"

record BetterZoom =
  enable_wheel :: bool
  zoom_to_mouse :: bool
  axis :: axis_t
  x_max_zoom_factor :: real
  y_max_zoom_factor :: real
  x_min_zoom_factor :: real
  y_min_zoom_factor :: real
  zoom_factor :: real
  index_factor :: real
  value_factor :: real
  history :: "tool_state list"
  history_index :: nat
  position :: "real \<times> real"
  component :: component_t

text \<open>
  What the tool calls and this repository's sources do not contain, taken as parameters:
  \<open>map_data\<close> of a mapper (screen to data space), and what \<open>PanState.apply\<close> and
  \<open>PanState.revert\<close> do, given \<open>prev\<close> and \<open>next\<close>, to the pair of the
  component's index and value mappers.
\<close>

record absent =
  map_data :: "mapper \<Rightarrow> real \<Rightarrow> real"
  pan_apply :: "real \<times> real \<Rightarrow> real \<times> real \<Rightarrow> mapper \<times> mapper \<Rightarrow> mapper \<times> mapper"
  pan_revert :: "real \<times> real \<Rightarrow> real \<times> real \<Rightarrow> mapper \<times> mapper \<Rightarrow> mapper \<times> mapper"

subsection \<open>The private interface\<close>

text \<open>\<open>_zoom_limit_reached(factor, xy_axis)\<close>, one function per value of \<open>xy_axis\<close>.\<close>

datatype xy_axis_t = X | Y

definition zoom_limit_reached :: "BetterZoom \<Rightarrow> real \<Rightarrow> xy_axis_t \<Rightarrow> bool" where
  "zoom_limit_reached self factor xy_axis =
     (case xy_axis of
        X \<Rightarrow> (if factor \<le> x_max_zoom_factor self \<and> factor \<ge> x_min_zoom_factor self
              then False else True)
      | Y \<Rightarrow> (if factor \<le> y_max_zoom_factor self \<and> factor \<ge> y_min_zoom_factor self
              then False else True))"

text \<open>
  \<open>_zoom_in_mapper(mapper, factor)\<close>: \<open>range/factor\<close> raises before either bound is
  assigned, so the mapper is unchanged when it does.
\<close>

definition zoom_in_mapper :: "mapper \<Rightarrow> real \<Rightarrow> error + mapper" where
  "zoom_in_mapper m factor =
     (let high_v = high (range_of m);
          low_v = low (range_of m);
          range_v = high_v - low_v;
          center = (low_v + high_v) / 2
      in case py_div range_v factor of
           Inl e \<Rightarrow> Inl e
         | Inr new_range \<Rightarrow>
             Inr (m\<lparr>range_of := (range_of m)\<lparr>high := center + new_range / 2,
                                             low := center - new_range / 2\<rparr>\<rparr>))"

definition get_x_mapper :: "component_t \<Rightarrow> mapper" where
  "get_x_mapper c =
     (case index_mapper c of
        GridMapper xm ym \<Rightarrow> (if orientation c = H then xm else ym)
      | Mapper1D im \<Rightarrow> (if orientation c = H then im else value_mapper c))"

definition get_y_mapper :: "component_t \<Rightarrow> mapper" where
  "get_y_mapper c =
     (case index_mapper c of
        GridMapper xm ym \<Rightarrow> (if orientation c = H then ym else xm)
      | Mapper1D im \<Rightarrow> (if orientation c = H then value_mapper c else im))"

definition center_screen :: "BetterZoom \<Rightarrow> real \<times> real" where
  "center_screen self = (fst (bounds (component self)) / 2, snd (bounds (component self)) / 2)"

subsection \<open>Tool states and the history\<close>

text \<open>
  Modelled from the spec: \<open>tool_states.py\<close> (\<open>ZoomState\<close>, \<open>PanState\<close>,
  \<open>GroupedToolState\<close>) is not among the sources. The spec asks for "reversible
  interaction state (zoom-in/out with bounded factor, history stack with forward/back
  navigation)" of a tool "mutating a plot's ranges". A \<open>ZoomState\<close> built from
  \<open>(_index_factor, _value_factor)\<close> and the new factors zooms, through the tool's
  \<open>_zoom_in_mapper\<close>, the mapper of each axis whose factor changes by the ratio of the
  two factors and then stores the factors it moved to; \<open>revert\<close> goes the other way.
  For a \<open>GridMapper\<close> the index and value mappers are its \<open>_xmapper\<close> and
  \<open>_ymapper\<close>. A \<open>PanState\<close> changes these two mappers only, by the parameters
  \<open>pan_apply\<close> and \<open>pan_revert\<close>. A \<open>GroupedToolState\<close> applies its states in
  order and reverts them in reverse order.
\<close>

text \<open>Modelled from the spec: the index mapper that a tool state works on (\<open>tool_states.py\<close> is absent).\<close>

definition state_index_mapper :: "component_t \<Rightarrow> mapper" where
  "state_index_mapper c = (case index_mapper c of GridMapper xm ym \<Rightarrow> xm | Mapper1D im \<Rightarrow> im)"

text \<open>Modelled from the spec: the value mapper that a tool state works on (\<open>tool_states.py\<close> is absent).\<close>

definition state_value_mapper :: "component_t \<Rightarrow> mapper" where
  "state_value_mapper c =
     (case index_mapper c of GridMapper xm ym \<Rightarrow> ym | Mapper1D im \<Rightarrow> value_mapper c)"

text \<open>Modelled from the spec: storing the index mapper after a tool state changed its range.\<close>

definition set_state_index_mapper :: "mapper \<Rightarrow> component_t \<Rightarrow> component_t" where
  "set_state_index_mapper m c =
     (case index_mapper c of
        GridMapper xm ym \<Rightarrow> c\<lparr>index_mapper := GridMapper m ym\<rparr>
      | Mapper1D im \<Rightarrow> c\<lparr>index_mapper := Mapper1D m\<rparr>)"

text \<open>Modelled from the spec: storing the value mapper after a tool state changed its range.\<close>

definition set_state_value_mapper :: "mapper \<Rightarrow> component_t \<Rightarrow> component_t" where
  "set_state_value_mapper m c =
     (case index_mapper c of
        GridMapper xm ym \<Rightarrow> c\<lparr>index_mapper := GridMapper xm m\<rparr>
      | Mapper1D im \<Rightarrow> c\<lparr>value_mapper := m\<rparr>)"

text \<open>
  Modelled from the spec: the call \<open>tool._zoom_in_mapper(mapper, a / b)\<close> of an absent
  \<open>ZoomState\<close>; the quotient is computed first.
\<close>

definition zoom_mapper_by :: "mapper \<Rightarrow> real \<Rightarrow> real \<Rightarrow> error + mapper" where
  "zoom_mapper_by m a b =
     (case py_div a b of Inl e \<Rightarrow> Inl e | Inr q \<Rightarrow> zoom_in_mapper m q)"

text \<open>
  Modelled from the spec: one axis of the absent \<open>ZoomState\<close>; the mapper is zoomed only when
  the factor changes.
\<close>

definition zoom_axis :: "mapper \<Rightarrow> real \<Rightarrow> real \<Rightarrow> error + mapper" where
  "zoom_axis m x y = (if x \<noteq> y then zoom_mapper_by m x y else Inr m)"

text \<open>
  Modelled from the spec: the absent \<open>ZoomState.apply\<close> and \<open>ZoomState.revert\<close>.
  Moving the tool from the factors \<open>a\<close> to the factors \<open>b\<close>: \<open>ZoomState(a, b).apply\<close>,
  and \<open>ZoomState(b, a).revert\<close>. The index mapper is zoomed first, then the value
  mapper, then the factors are stored.
\<close>

definition zoom_move :: "real \<times> real \<Rightarrow> real \<times> real \<Rightarrow> BetterZoom \<Rightarrow> outcome \<times> BetterZoom" where
  "zoom_move a b self =
     (case zoom_axis (state_index_mapper (component self)) (fst b) (fst a) of
        Inl e \<Rightarrow> (Raised e, self)
      | Inr im \<Rightarrow>
          (case zoom_axis (state_value_mapper (component self)) (snd b) (snd a) of
             Inl e \<Rightarrow>
               (Raised e, self\<lparr>component := set_state_index_mapper im (component self)\<rparr>)
           | Inr vm \<Rightarrow>
               (Returned,
                self\<lparr>component :=
                        set_state_value_mapper vm (set_state_index_mapper im (component self)),
                      index_factor := fst b, value_factor := snd b\<rparr>)))"

text \<open>Modelled from the spec: the absent \<open>PanState\<close> changes the two mappers by a parameter.\<close>

definition pan_mappers :: "(mapper \<times> mapper \<Rightarrow> mapper \<times> mapper) \<Rightarrow> component_t \<Rightarrow> component_t" where
  "pan_mappers f c =
     (let ms = f (state_index_mapper c, state_value_mapper c)
      in set_state_value_mapper (snd ms) (set_state_index_mapper (fst ms) c))"

text \<open>Modelled from the spec: \<open>apply\<close> of the absent tool states.\<close>

fun apply_state :: "absent \<Rightarrow> tool_state \<Rightarrow> BetterZoom \<Rightarrow> outcome \<times> BetterZoom"
  and apply_states :: "absent \<Rightarrow> tool_state list \<Rightarrow> BetterZoom \<Rightarrow> outcome \<times> BetterZoom" where
  "apply_state E (ZoomState prev nxt) self = zoom_move prev nxt self"
| "apply_state E (PanState prev nxt) self =
     (Returned, self\<lparr>component := pan_mappers (pan_apply E prev nxt) (component self)\<rparr>)"
| "apply_state E (GroupedToolState states) self = apply_states E states self"
| "apply_states E [] self = (Returned, self)"
| "apply_states E (s # ss) self =
     (case apply_state E s self of
        (Raised e, self') \<Rightarrow> (Raised e, self')
      | (Returned, self') \<Rightarrow> apply_states E ss self')"

text \<open>
  Modelled from the spec: \<open>revert\<close> of the absent tool states; \<open>revert_states\<close> walks the
  list from its last state to its first.
\<close>

fun revert_state :: "absent \<Rightarrow> tool_state \<Rightarrow> BetterZoom \<Rightarrow> outcome \<times> BetterZoom"
  and revert_states :: "absent \<Rightarrow> tool_state list \<Rightarrow> BetterZoom \<Rightarrow> outcome \<times> BetterZoom" where
  "revert_state E (ZoomState prev nxt) self = zoom_move nxt prev self"
| "revert_state E (PanState prev nxt) self =
     (Returned, self\<lparr>component := pan_mappers (pan_revert E prev nxt) (component self)\<rparr>)"
| "revert_state E (GroupedToolState states) self = revert_states E states self"
| "revert_states E [] self = (Returned, self)"
| "revert_states E (s # ss) self =
     (case revert_states E ss self of
        (Raised e, self') \<Rightarrow> (Raised e, self')
      | (Returned, self') \<Rightarrow> revert_state E s self')"

text \<open>
  Modelled from the spec: \<open>tool_history_mixin.py\<close> (\<open>ToolHistoryMixin\<close>) is not among
  the sources. The spec asks for a "history stack with forward/back navigation".
  \<open>_append_state\<close> cuts the history after the current index, pushes the state and makes
  it current; \<open>_current_state\<close> reads the history at the index. The previous-state
  action steps the index back when there is a previous index and then calls
  \<open>_prev_state_pressed\<close>; the next-state action steps it forward when there is a next
  state and then calls \<open>_next_state_pressed\<close> (the docstrings of both say that the
  index "will have already been set"); the reset action sets the index to 0 and calls
  \<open>_reset_state_pressed\<close>.
\<close>

text \<open>Modelled from the spec: \<open>_append_state\<close> of the absent \<open>ToolHistoryMixin\<close>.\<close>

definition append_state :: "tool_state \<Rightarrow> BetterZoom \<Rightarrow> BetterZoom" where
  "append_state st self =
     (let new_history = take (history_index self + 1) (history self) @ [st]
      in self\<lparr>history := new_history, history_index := length new_history - 1\<rparr>)"

text \<open>Modelled from the spec: \<open>_current_state\<close> of the absent \<open>ToolHistoryMixin\<close>.\<close>

definition current_state :: "BetterZoom \<Rightarrow> error + tool_state" where
  "current_state self =
     (if history_index self < length (history self)
      then Inr (history self ! history_index self) else Inl IndexError)"

text \<open>
  The \<open>ToolHistoryMixin\<close> interface as \<open>BetterZoom\<close> implements it, from the sources:
  \<open>_next_state_pressed\<close>, \<open>_prev_state_pressed\<close> and \<open>_reset_state_pressed\<close>.
\<close>

definition next_state_pressed :: "absent \<Rightarrow> BetterZoom \<Rightarrow> outcome \<times> BetterZoom" where
  "next_state_pressed E self =
     (case current_state self of
        Inl e \<Rightarrow> (Raised e, self)
      | Inr st \<Rightarrow> apply_state E st self)"

definition prev_state_pressed :: "absent \<Rightarrow> BetterZoom \<Rightarrow> outcome \<times> BetterZoom" where
  "prev_state_pressed E self =
     (if history_index self + 1 < length (history self)
      then revert_state E (history self ! (history_index self + 1)) self
      else (Raised IndexError, self))"

definition reset_state_pressed :: "absent \<Rightarrow> BetterZoom \<Rightarrow> outcome \<times> BetterZoom" where
  "reset_state_pressed E self =
     (case revert_states E (history self) self of
        (Raised e, self') \<Rightarrow> (Raised e, self')
      | (Returned, self') \<Rightarrow> (Returned, self'\<lparr>history := []\<rparr>))"

text \<open>Modelled from the spec: the previous-state action of the absent \<open>ToolHistoryMixin\<close>.\<close>

definition prev_state_action :: "absent \<Rightarrow> BetterZoom \<Rightarrow> outcome \<times> BetterZoom" where
  "prev_state_action E self =
     (if history_index self > 0
      then prev_state_pressed E (self\<lparr>history_index := history_index self - 1\<rparr>)
      else (Returned, self))"

text \<open>Modelled from the spec: the next-state action of the absent \<open>ToolHistoryMixin\<close>.\<close>

definition next_state_action :: "absent \<Rightarrow> BetterZoom \<Rightarrow> outcome \<times> BetterZoom" where
  "next_state_action E self =
     (if history_index self + 2 \<le> length (history self)
      then next_state_pressed E (self\<lparr>history_index := history_index self + 1\<rparr>)
      else (Returned, self))"

text \<open>Modelled from the spec: the reset action of the absent \<open>ToolHistoryMixin\<close>.\<close>

definition reset_state_action :: "absent \<Rightarrow> BetterZoom \<Rightarrow> outcome \<times> BetterZoom" where
  "reset_state_action E self = reset_state_pressed E (self\<lparr>history_index := 0\<rparr>)"

subsection \<open>The public interface\<close>

text \<open>
  The six zoom operations end with the same statements, from \<open>if self.zoom_to_mouse:\<close>
  on: build the state from the current and the new factors, apply it, append it.
\<close>

definition apply_and_append :: "absent \<Rightarrow> BetterZoom \<Rightarrow> real \<Rightarrow> real \<Rightarrow> outcome \<times> BetterZoom" where
  "apply_and_append E self new_index_factor new_value_factor =
     (if zoom_to_mouse self then
        (let location = position self;
             x_map = get_x_mapper (component self);
             y_map = get_y_mapper (component self);
             nxt = (map_data E x_map (fst location), map_data E y_map (snd location));
             prev = (map_data E x_map (fst (bounds (component self)) / 2),
                     map_data E y_map (snd (bounds (component self)) / 2));
             pan_state = PanState prev nxt;
             zoom_state = ZoomState (index_factor self, value_factor self)
                                    (new_index_factor, new_value_factor);
             states = GroupedToolState [pan_state, zoom_state]
         in case apply_state E states self of
              (Raised e, self') \<Rightarrow> (Raised e, self')
            | (Returned, self') \<Rightarrow> (Returned, append_state states self'))
      else
        (let zoom_state = ZoomState (index_factor self, value_factor self)
                                    (new_index_factor, new_value_factor)
         in case apply_state E zoom_state self of
              (Raised e, self') \<Rightarrow> (Raised e, self')
            | (Returned, self') \<Rightarrow> (Returned, append_state zoom_state self')))"

definition zoom_in :: "absent \<Rightarrow> BetterZoom \<Rightarrow> real \<Rightarrow> outcome \<times> BetterZoom" where
  "zoom_in E self factor0 =
     (let factor = (if factor0 = 0 then zoom_factor self else factor0);
          new_index_factor = (if axis self = Value then index_factor self
                              else index_factor self * factor);
          new_value_factor = (if axis self = Value then value_factor self * factor
                              else if axis self = Index then value_factor self
                              else value_factor self * factor)
      in if orientation (component self) = H then
           (if zoom_limit_reached self new_index_factor X then (Returned, self)
            else if zoom_limit_reached self new_value_factor Y then (Returned, self)
            else apply_and_append E self new_index_factor new_value_factor)
         else
           (if zoom_limit_reached self new_index_factor Y then (Returned, self)
            else if zoom_limit_reached self new_value_factor X then (Returned, self)
            else apply_and_append E self new_index_factor new_value_factor))"

definition zoom_out :: "absent \<Rightarrow> BetterZoom \<Rightarrow> real \<Rightarrow> outcome \<times> BetterZoom" where
  "zoom_out E self factor0 =
     (let factor = (if factor0 = 0 then zoom_factor self else factor0)
      in case py_div (index_factor self) factor of
           Inl e \<Rightarrow> (Raised e, self)
         | Inr new_index_factor0 \<Rightarrow>
        (case py_div (value_factor self) factor of
           Inl e \<Rightarrow> (Raised e, self)
         | Inr new_value_factor0 \<Rightarrow>
        (let new_index_factor = (if axis self = Value then index_factor self
                                 else new_index_factor0);
             new_value_factor = (if axis self = Value then new_value_factor0
                                 else if axis self = Index then value_factor self
                                 else new_value_factor0)
         in if orientation (component self) = H then
              (if zoom_limit_reached self new_index_factor X then (Returned, self)
               else if zoom_limit_reached self new_value_factor Y then (Returned, self)
               else apply_and_append E self new_index_factor new_value_factor)
            else
              (if zoom_limit_reached self new_index_factor Y then (Returned, self)
               else if zoom_limit_reached self new_value_factor X then (Returned, self)
               else apply_and_append E self new_index_factor new_value_factor))))"

definition zoom_in_x :: "absent \<Rightarrow> BetterZoom \<Rightarrow> real \<Rightarrow> outcome \<times> BetterZoom" where
  "zoom_in_x E self factor0 =
     (let factor = (if factor0 = 0 then zoom_factor self else factor0)
      in if orientation (component self) = H then
           (let new_index_factor = index_factor self * factor;
                new_value_factor = value_factor self
            in if zoom_limit_reached self new_index_factor X then (Returned, self)
               else apply_and_append E self new_index_factor new_value_factor)
         else
           (let new_index_factor = index_factor self;
                new_value_factor = value_factor self * factor
            in if zoom_limit_reached self new_value_factor X then (Returned, self)
               else apply_and_append E self new_index_factor new_value_factor))"

definition zoom_out_x :: "absent \<Rightarrow> BetterZoom \<Rightarrow> real \<Rightarrow> outcome \<times> BetterZoom" where
  "zoom_out_x E self factor0 =
     (let factor = (if factor0 = 0 then zoom_factor self else factor0)
      in if orientation (component self) = H then
           (case py_div (index_factor self) factor of
              Inl e \<Rightarrow> (Raised e, self)
            | Inr new_index_factor \<Rightarrow>
                (let new_value_factor = value_factor self
                 in if zoom_limit_reached self new_index_factor X then (Returned, self)
                    else apply_and_append E self new_index_factor new_value_factor))
         else
           (let new_index_factor = index_factor self
            in case py_div (value_factor self) factor of
                 Inl e \<Rightarrow> (Raised e, self)
               | Inr new_value_factor \<Rightarrow>
                   (if zoom_limit_reached self new_value_factor X then (Returned, self)
                    else apply_and_append E self new_index_factor new_value_factor)))"

definition zoom_in_y :: "absent \<Rightarrow> BetterZoom \<Rightarrow> real \<Rightarrow> outcome \<times> BetterZoom" where
  "zoom_in_y E self factor0 =
     (let factor = (if factor0 = 0 then zoom_factor self else factor0)
      in if orientation (component self) = V then
           (let new_index_factor = index_factor self * factor;
                new_value_factor = value_factor self
            in if zoom_limit_reached self new_index_factor Y then (Returned, self)
               else apply_and_append E self new_index_factor new_value_factor)
         else
           (let new_index_factor = index_factor self;
                new_value_factor = value_factor self * factor
            in if zoom_limit_reached self new_value_factor Y then (Returned, self)
               else apply_and_append E self new_index_factor new_value_factor))"

definition zoom_out_y :: "absent \<Rightarrow> BetterZoom \<Rightarrow> real \<Rightarrow> outcome \<times> BetterZoom" where
  "zoom_out_y E self factor0 =
     (let factor = (if factor0 = 0 then zoom_factor self else factor0)
      in if orientation (component self) = V then
           (case py_div (index_factor self) factor of
              Inl e \<Rightarrow> (Raised e, self)
            | Inr new_index_factor \<Rightarrow>
                (let new_value_factor = value_factor self
                 in if zoom_limit_reached self new_index_factor Y then (Returned, self)
                    else apply_and_append E self new_index_factor new_value_factor))
         else
           (let new_index_factor = index_factor self
            in case py_div (value_factor self) factor of
                 Inl e \<Rightarrow> (Raised e, self)
               | Inr new_value_factor \<Rightarrow>
                   (if zoom_limit_reached self new_value_factor Y then (Returned, self)
                    else apply_and_append E self new_index_factor new_value_factor)))"

subsection \<open>The \<open>BaseTool\<close> interface\<close>

record mouse_event =
  mouse_wheel :: int
  handled :: bool

text \<open>
  \<open>normal_mouse_wheel(event)\<close>: \<open>event.handled = True\<close> is the statement after the
  zoom, so an exception of the zoom leaves the event as it was.
\<close>

definition normal_mouse_wheel ::
  "absent \<Rightarrow> BetterZoom \<Rightarrow> mouse_event \<Rightarrow> outcome \<times> BetterZoom \<times> mouse_event" where
  "normal_mouse_wheel E self event =
     (if \<not> enable_wheel self then (Returned, self, event)
      else if mouse_wheel event \<noteq> 0 then
        (case (if mouse_wheel event > 0 then zoom_in E self 0 else zoom_out E self 0) of
           (Raised e, self') \<Rightarrow> (Raised e, self', event)
         | (Returned, self') \<Rightarrow> (Returned, self', event\<lparr>handled := True\<rparr>))
      else (Returned, self, event))"

subsection \<open>Sequences of zoom operations\<close>

datatype zoom_op = Zoom_in | Zoom_out | Zoom_in_x | Zoom_out_x | Zoom_in_y | Zoom_out_y

definition do_zoom :: "absent \<Rightarrow> zoom_op \<Rightarrow> BetterZoom \<Rightarrow> real \<Rightarrow> outcome \<times> BetterZoom" where
  "do_zoom E op self factor =
     (case op of
        Zoom_in \<Rightarrow> zoom_in E self factor
      | Zoom_out \<Rightarrow> zoom_out E self factor
      | Zoom_in_x \<Rightarrow> zoom_in_x E self factor
      | Zoom_out_x \<Rightarrow> zoom_out_x E self factor
      | Zoom_in_y \<Rightarrow> zoom_in_y E self factor
      | Zoom_out_y \<Rightarrow> zoom_out_y E self factor)"

text \<open>A sequence of calls stops at the first one that raises.\<close>

fun run_zooms :: "absent \<Rightarrow> (zoom_op \<times> real) list \<Rightarrow> BetterZoom \<Rightarrow> outcome \<times> BetterZoom" where
  "run_zooms E [] self = (Returned, self)"
| "run_zooms E (c # cs) self =
     (case do_zoom E (fst c) self (snd c) of
        (Raised e, self') \<Rightarrow> (Raised e, self')
      | (Returned, self') \<Rightarrow> run_zooms E cs self')"

subsection \<open>The words of the specification\<close>

text \<open>
  The prospective new factors \<open>(new_index_factor, new_value_factor)\<close> of a call, when
  the call gets as far as computing them (\<open>None\<close> when the division raises).
\<close>

definition the_factor :: "BetterZoom \<Rightarrow> real \<Rightarrow> real" where
  "the_factor self factor0 = (if factor0 = 0 then zoom_factor self else factor0)"

definition new_factors :: "zoom_op \<Rightarrow> BetterZoom \<Rightarrow> real \<Rightarrow> (real \<times> real) option" where
  "new_factors op self factor0 =
     (let f = the_factor self factor0; i = index_factor self; v = value_factor self;
          hor = (orientation (component self) = H)
      in case op of
           Zoom_in \<Rightarrow>
             Some (if axis self = Value then i else i * f, if axis self = Index then v else v * f)
         | Zoom_out \<Rightarrow>
             (if f = 0 then None
              else Some (if axis self = Value then i else i / f,
                         if axis self = Index then v else v / f))
         | Zoom_in_x \<Rightarrow> Some (if hor then (i * f, v) else (i, v * f))
         | Zoom_out_x \<Rightarrow> (if f = 0 then None else Some (if hor then (i / f, v) else (i, v / f)))
         | Zoom_in_y \<Rightarrow> Some (if hor then (i, v * f) else (i * f, v))
         | Zoom_out_y \<Rightarrow> (if f = 0 then None else Some (if hor then (i, v / f) else (i / f, v))))"

text \<open>
  The factor of a screen axis in a pair (index factor, value factor): the index factor
  is the one of the x axis when the component is horizontal.
\<close>

definition axis_factor :: "BetterZoom \<Rightarrow> real \<times> real \<Rightarrow> xy_axis_t \<Rightarrow> real" where
  "axis_factor self fs ax =
     (case ax of
        X \<Rightarrow> (if orientation (component self) = H then fst fs else snd fs)
      | Y \<Rightarrow> (if orientation (component self) = H then snd fs else fst fs))"

definition within_limits :: "BetterZoom \<Rightarrow> real \<times> real \<Rightarrow> bool" where
  "within_limits self fs =
     (x_min_zoom_factor self \<le> axis_factor self fs X \<and>
      axis_factor self fs X \<le> x_max_zoom_factor self \<and>
      y_min_zoom_factor self \<le> axis_factor self fs Y \<and>
      axis_factor self fs Y \<le> y_max_zoom_factor self)"

definition factors_within_limits :: "BetterZoom \<Rightarrow> bool" where
  "factors_within_limits self = within_limits self (index_factor self, value_factor self)"

text \<open>The screen axes whose prospective factor an operation checks.\<close>

definition checked_axes :: "zoom_op \<Rightarrow> xy_axis_t list" where
  "checked_axes op =
     (case op of
        Zoom_in \<Rightarrow> [X, Y] | Zoom_out \<Rightarrow> [X, Y]
      | Zoom_in_x \<Rightarrow> [X] | Zoom_out_x \<Rightarrow> [X]
      | Zoom_in_y \<Rightarrow> [Y] | Zoom_out_y \<Rightarrow> [Y])"

text \<open>The limits and the orientation: what a zoom operation never assigns.\<close>

definition limits_of :: "BetterZoom \<Rightarrow> (real \<times> real) \<times> (real \<times> real) \<times> orientation_t" where
  "limits_of self =
     ((x_min_zoom_factor self, x_max_zoom_factor self),
      (y_min_zoom_factor self, y_max_zoom_factor self),
      orientation (component self))"

text \<open>\<open>PanState.revert\<close> undoes \<open>PanState.apply\<close>: the "reversible" of the spec.\<close>

definition pan_reversible :: "absent \<Rightarrow> bool" where
  "pan_reversible E = (\<forall>p n ms. pan_revert E p n (pan_apply E p n ms) = ms)"

subsection \<open>A tool with the default traits, on a plot\<close>

definition plot :: component_t where
  "plot = \<lparr>orientation = H,
           index_mapper = Mapper1D \<lparr>range_of = \<lparr>low = 0, high = 10\<rparr>\<rparr>,
           value_mapper = \<lparr>range_of = \<lparr>low = 0, high = 100\<rparr>\<rparr>,
           bounds = (200, 100)\<rparr>"

definition default_tool :: BetterZoom where
  "default_tool =
     \<lparr>enable_wheel = True, zoom_to_mouse = False, axis = Both,
      x_max_zoom_factor = 100000, y_max_zoom_factor = 100000,
      x_min_zoom_factor = 1 / 100000, y_min_zoom_factor = 1 / 100000,
      zoom_factor = 2, index_factor = 1, value_factor = 1,
      history = [ZoomState (1, 1) (1, 1)], history_index = 0,
      position = (50, 50), component = plot\<rparr>"

text \<open>
  An instance of the parameters: a mapper over the whole of the plot's screen bounds, and
  a pan that shifts both ranges by \<open>next - prev\<close>.
\<close>

definition shift_mapper :: "real \<Rightarrow> mapper \<Rightarrow> mapper" where
  "shift_mapper d m = m\<lparr>range_of := \<lparr>low = low (range_of m) + d, high = high (range_of m) + d\<rparr>\<rparr>"

definition shift_env :: absent where
  "shift_env =
     \<lparr>map_data = (\<lambda>m s. low (range_of m) + s * (high (range_of m) - low (range_of m)) / 100),
      pan_apply = (\<lambda>p n ms. (shift_mapper (fst n - fst p) (fst ms),
                              shift_mapper (snd n - snd p) (snd ms))),
      pan_revert = (\<lambda>p n ms. (shift_mapper (fst p - fst n) (fst ms),
                               shift_mapper (snd p - snd n) (snd ms)))\<rparr>"

subsection \<open>What the properties speak about\<close>

text \<open>A factor outside the closed interval of the limits of a screen axis.\<close>

definition outside_limits :: "BetterZoom \<Rightarrow> xy_axis_t \<Rightarrow> real \<Rightarrow> bool" where
  "outside_limits self ax v =
     (case ax of
        X \<Rightarrow> v < x_min_zoom_factor self \<or> x_max_zoom_factor self < v
      | Y \<Rightarrow> v < y_min_zoom_factor self \<or> y_max_zoom_factor self < v)"

text \<open>
  The traits of the tool that no zoom operation and no history action assigns, and the
  part of the component that is not a mapper.
\<close>

definition settings ::
  "BetterZoom \<Rightarrow> bool \<times> bool \<times> axis_t \<times> real \<times> real \<times> real \<times> real \<times> real \<times> (real \<times> real)" where
  "settings s = (enable_wheel s, zoom_to_mouse s, axis s, x_max_zoom_factor s, y_max_zoom_factor s,
     x_min_zoom_factor s, y_min_zoom_factor s, zoom_factor s, position s)"

definition layout :: "component_t \<Rightarrow> orientation_t \<times> (real \<times> real)" where
  "layout c = (orientation c, bounds c)"

text \<open>The default tool with a lower y limit above its y factor.\<close>

definition y_limited_tool :: BetterZoom where
  "y_limited_tool = default_tool\<lparr>y_min_zoom_factor := 2\<rparr>"

text \<open>
  The state that a zoom operation builds, applies and appends: a \<open>ZoomState\<close>, grouped
  after a \<open>PanState\<close> when \<open>zoom_to_mouse\<close> is set.
\<close>

definition zoom_record :: "absent \<Rightarrow> BetterZoom \<Rightarrow> real \<Rightarrow> real \<Rightarrow> tool_state" where
  "zoom_record E self ni nv =
     (let zoom_state = ZoomState (index_factor self, value_factor self) (ni, nv)
      in if zoom_to_mouse self then
           GroupedToolState
             [PanState (map_data E (get_x_mapper (component self)) (fst (bounds (component self)) / 2),
                        map_data E (get_y_mapper (component self)) (snd (bounds (component self)) / 2))
                       (map_data E (get_x_mapper (component self)) (fst (position self)),
                        map_data E (get_y_mapper (component self)) (snd (position self))),
              zoom_state]
         else zoom_state)"

text \<open>
  A call passes the limit check: its prospective factors are computed and none of the
  axes it checks is outside the limits.
\<close>

definition passes_limit_check :: "zoom_op \<Rightarrow> BetterZoom \<Rightarrow> real \<Rightarrow> bool" where
  "passes_limit_check op self f =
     (case new_factors op self f of
        None \<Rightarrow> False
      | Some fs \<Rightarrow>
          \<not> list_ex (\<lambda>ax. outside_limits self ax (axis_factor self fs ax)) (checked_axes op))"

text \<open>
  The default tool after \<open>_reset_state_pressed\<close> (its history is empty), with
  \<open>zoom_to_mouse\<close> set, and with a \<open>zoom_factor\<close> of zero.
\<close>

definition reset_tool :: BetterZoom where
  "reset_tool = default_tool\<lparr>history := []\<rparr>"

definition mouse_tool :: BetterZoom where
  "mouse_tool = default_tool\<lparr>zoom_to_mouse := True\<rparr>"



section \<open>The two-dimensional range: \<open>enthought/chaco2/data_range_2d.py\<close>\<close>

subsection \<open>The one-dimensional ranges\<close>

text \<open>A bound is set to \<open>'auto'\<close> or to a number.\<close>

datatype setting = Auto | Num real

text \<open>
  Modelled from the spec: \<open>data_range_1d.py\<close> (\<open>DataRange1D\<close>) and
  \<open>base_data_range.py\<close> (\<open>BaseDataRange\<close>: \<open>sources\<close>, \<open>add\<close>, \<open>remove\<close>) are
  not among the sources. The spec describes a data range as a "user- or auto-computed
  lower/upper bound pair over a data dimension" and asks for "maintaining consistent
  "auto" vs user-set bounds, propagating data-source add/remove events to range
  recomputation". So a one-dimensional range keeps its data sources (named by a number),
  the setting and the value of each bound; a bound set to a number has that number as its
  value; \<open>refresh\<close> recomputes the bounds set to \<open>'auto'\<close> from the sources and does
  nothing when both bounds are user-set; \<open>add\<close> appends a source that is not there yet
  and \<open>remove\<close> takes out one that is there, and the range is then recomputed. The
  bounds computed from a list of data sources are the parameter \<open>B\<close>.
\<close>

record DataRange1D =
  sources1 :: "nat list"
  low_setting1 :: setting
  high_setting1 :: setting
  low_value1 :: real
  high_value1 :: real

text \<open>Modelled from the spec: \<open>_refresh_bounds\<close> of the absent \<open>DataRange1D\<close>.\<close>

definition refresh_bounds1 :: "(nat list \<Rightarrow> real \<times> real) \<Rightarrow> DataRange1D \<Rightarrow> DataRange1D" where
  "refresh_bounds1 B r =
     r\<lparr>low_value1 := (if low_setting1 r = Auto then fst (B (sources1 r)) else low_value1 r),
       high_value1 := (if high_setting1 r = Auto then snd (B (sources1 r)) else high_value1 r)\<rparr>"

text \<open>Modelled from the spec: \<open>refresh\<close> of the absent \<open>DataRange1D\<close>.\<close>

definition refresh1 :: "(nat list \<Rightarrow> real \<times> real) \<Rightarrow> DataRange1D \<Rightarrow> DataRange1D" where
  "refresh1 B r =
     (if low_setting1 r \<noteq> Auto \<and> high_setting1 r \<noteq> Auto then r else refresh_bounds1 B r)"

text \<open>Modelled from the spec: assigning \<open>low_setting\<close> of the absent \<open>DataRange1D\<close>.\<close>

definition set_low_setting1 ::
  "(nat list \<Rightarrow> real \<times> real) \<Rightarrow> setting \<Rightarrow> DataRange1D \<Rightarrow> DataRange1D" where
  "set_low_setting1 B val r =
     (case val of
        Auto \<Rightarrow> r\<lparr>low_setting1 := Auto, low_value1 := fst (B (sources1 r))\<rparr>
      | Num v \<Rightarrow> r\<lparr>low_setting1 := Num v, low_value1 := v\<rparr>)"

text \<open>Modelled from the spec: assigning \<open>high_setting\<close> of the absent \<open>DataRange1D\<close>.\<close>

definition set_high_setting1 ::
  "(nat list \<Rightarrow> real \<times> real) \<Rightarrow> setting \<Rightarrow> DataRange1D \<Rightarrow> DataRange1D" where
  "set_high_setting1 B val r =
     (case val of
        Auto \<Rightarrow> r\<lparr>high_setting1 := Auto, high_value1 := snd (B (sources1 r))\<rparr>
      | Num v \<Rightarrow> r\<lparr>high_setting1 := Num v, high_value1 := v\<rparr>)"

text \<open>Modelled from the spec: \<open>add\<close> of the absent \<open>BaseDataRange\<close>, for one data source.\<close>

definition add1 :: "(nat list \<Rightarrow> real \<times> real) \<Rightarrow> nat \<Rightarrow> DataRange1D \<Rightarrow> DataRange1D" where
  "add1 B d r =
     (if d \<in> set (sources1 r) then r
      else refresh1 B (r\<lparr>sources1 := sources1 r @ [d]\<rparr>))"

text \<open>Modelled from the spec: \<open>remove\<close> of the absent \<open>BaseDataRange\<close>, for one data source.\<close>

definition remove_source1 :: "(nat list \<Rightarrow> real \<times> real) \<Rightarrow> nat \<Rightarrow> DataRange1D \<Rightarrow> DataRange1D" where
  "remove_source1 B d r =
     (if d \<in> set (sources1 r) then refresh1 B (r\<lparr>sources1 := remove1 d (sources1 r)\<rparr>)
      else r)"

subsection \<open>Data\<close>

text \<open>
  A source of the two-dimensional range: an image data source, which has an identity and
  the two one-dimensional data sources \<open>_xdata\<close> and \<open>_ydata\<close>.
\<close>

record ImageData =
  ident :: nat
  xdata :: nat
  ydata :: nat

text \<open>
  The traits of the range that its methods read or assign: \<open>sources\<close>, the private
  \<open>_low_setting\<close> and \<open>_high_setting\<close>, \<open>_xrange\<close> and \<open>_yrange\<close>. The listeners that
  \<open>on_trait_change(self.refresh, "data_changed")\<close> attaches to the sources are kept as the
  set of the sources that have one.
\<close>

record DataRange2D =
  sources :: "ImageData list"
  low_setting_p :: "setting \<times> setting"
  high_setting_p :: "setting \<times> setting"
  xrange :: DataRange1D
  yrange :: DataRange1D
  listeners :: "ImageData set"

subsection \<open>The \<open>AbstractRange\<close> interface\<close>

text \<open>The property getters \<open>_get_low\<close>, \<open>_get_high\<close>, \<open>_get_low_setting\<close>, \<open>_get_high_setting\<close>.\<close>

definition get_low :: "DataRange2D \<Rightarrow> real \<times> real" where
  "get_low self = (low_value1 (xrange self), low_value1 (yrange self))"

definition get_high :: "DataRange2D \<Rightarrow> real \<times> real" where
  "get_high self = (high_value1 (xrange self), high_value1 (yrange self))"

definition get_low_setting :: "DataRange2D \<Rightarrow> setting \<times> setting" where
  "get_low_setting self = (low_setting1 (xrange self), low_setting1 (yrange self))"

definition get_high_setting :: "DataRange2D \<Rightarrow> setting \<times> setting" where
  "get_high_setting self = (high_setting1 (xrange self), high_setting1 (yrange self))"

text \<open>
  \<open>mask_data(data)\<close>: \<open>transpose\<close> splits the points into their x and y coordinates,
  the comparisons and \<open>&\<close> work element by element.
\<close>

definition mask_data :: "DataRange2D \<Rightarrow> (real \<times> real) list \<Rightarrow> bool list" where
  "mask_data self data =
     (let x_points = map fst data;
          y_points = map snd data;
          x_mask = map2 (\<and>) (map (\<lambda>x. x \<ge> fst (get_low self)) x_points)
                           (map (\<lambda>x. x \<le> fst (get_high self)) x_points);
          y_mask = map2 (\<and>) (map (\<lambda>y. y \<ge> snd (get_low self)) y_points)
                           (map (\<lambda>y. y \<le> snd (get_high self)) y_points)
      in map2 (\<and>) x_mask y_mask)"

text \<open>\<open>numpy.compress(condition, a, axis=0)\<close>: the rows of \<open>a\<close> whose condition is true.\<close>

definition compress :: "bool list \<Rightarrow> 'a list \<Rightarrow> 'a list" where
  "compress condition a = map snd (filter fst (zip condition a))"

definition clip_data :: "DataRange2D \<Rightarrow> (real \<times> real) list \<Rightarrow> (real \<times> real) list" where
  "clip_data self data = compress (mask_data self data) data"

definition bound_data :: "DataRange2D \<Rightarrow> (real \<times> real) list \<Rightarrow> outcome \<times> DataRange2D" where
  "bound_data self data = (Raised NotImplementedError, self)"

subsection \<open>Settings and refresh\<close>

definition do_set_low_setting ::
  "(nat list \<Rightarrow> real \<times> real) \<Rightarrow> setting \<times> setting \<Rightarrow> DataRange2D \<Rightarrow> DataRange2D" where
  "do_set_low_setting B val self =
     self\<lparr>xrange := set_low_setting1 B (fst val) (xrange self),
          yrange := set_low_setting1 B (snd val) (yrange self)\<rparr>"

definition do_set_high_setting ::
  "(nat list \<Rightarrow> real \<times> real) \<Rightarrow> setting \<times> setting \<Rightarrow> DataRange2D \<Rightarrow> DataRange2D" where
  "do_set_high_setting B val self =
     self\<lparr>xrange := set_high_setting1 B (fst val) (xrange self),
          yrange := set_high_setting1 B (snd val) (yrange self)\<rparr>"

definition set_bounds ::
  "(nat list \<Rightarrow> real \<times> real) \<Rightarrow> setting \<times> setting \<Rightarrow> setting \<times> setting \<Rightarrow> DataRange2D
   \<Rightarrow> DataRange2D" where
  "set_bounds B low_v high_v self = do_set_high_setting B high_v (do_set_low_setting B low_v self)"

definition refresh_bounds :: "(nat list \<Rightarrow> real \<times> real) \<Rightarrow> DataRange2D \<Rightarrow> DataRange2D" where
  "refresh_bounds B self =
     self\<lparr>xrange := refresh1 B (xrange self), yrange := refresh1 B (yrange self)\<rparr>"

definition reset :: "(nat list \<Rightarrow> real \<times> real) \<Rightarrow> DataRange2D \<Rightarrow> DataRange2D" where
  "reset B self =
     refresh_bounds B (self\<lparr>high_setting_p := (Auto, Auto), low_setting_p := (Auto, Auto)\<rparr>)"

text \<open>\<open>'auto' in t\<close> for a pair \<open>t\<close>.\<close>

definition auto_in :: "setting \<times> setting \<Rightarrow> bool" where
  "auto_in t = (fst t = Auto \<or> snd t = Auto)"

definition refresh :: "(nat list \<Rightarrow> real \<times> real) \<Rightarrow> DataRange2D \<Rightarrow> DataRange2D" where
  "refresh B self =
     (if \<not> auto_in (low_setting_p self) \<and> \<not> auto_in (high_setting_p self) then self
      else refresh_bounds B self)"

subsection \<open>Replacing a one-dimensional range\<close>

text \<open>
  \<open>_set_1d_range(dataname, oldrange, newrange)\<close>: the first statement of the loop body
  is \<open>source1d = getattr(source, datanamem, None)\<close>, and no name \<open>datanamem\<close> is
  defined: the first iteration raises \<open>NameError\<close> before it removes or adds anything.
\<close>

fun set_1d_range_loop ::
  "string \<Rightarrow> DataRange1D \<Rightarrow> DataRange1D \<Rightarrow> ImageData list \<Rightarrow> DataRange2D
   \<Rightarrow> outcome \<times> DataRange2D" where
  "set_1d_range_loop dataname oldrange newrange [] self = (Returned, self)"
| "set_1d_range_loop dataname oldrange newrange (source # rest) self = (Raised NameError, self)"

definition set_1d_range ::
  "string \<Rightarrow> DataRange1D \<Rightarrow> DataRange1D \<Rightarrow> DataRange2D \<Rightarrow> outcome \<times> DataRange2D" where
  "set_1d_range dataname oldrange newrange self =
     set_1d_range_loop dataname oldrange newrange (sources self) self"

definition set_x_range :: "DataRange1D \<Rightarrow> DataRange2D \<Rightarrow> outcome \<times> DataRange2D" where
  "set_x_range newrange self =
     (case set_1d_range ''_xdata'' (xrange self) newrange self of
        (Raised e, self') \<Rightarrow> (Raised e, self')
      | (Returned, self') \<Rightarrow> (Returned, self'\<lparr>xrange := newrange\<rparr>))"

definition set_y_range :: "DataRange1D \<Rightarrow> DataRange2D \<Rightarrow> outcome \<times> DataRange2D" where
  "set_y_range newrange self =
     (case set_1d_range ''_ydata'' (yrange self) newrange self of
        (Raised e, self') \<Rightarrow> (Raised e, self')
      | (Returned, self') \<Rightarrow> (Returned, self'\<lparr>yrange := newrange\<rparr>))"

subsection \<open>Event handlers\<close>

definition detach_source :: "(nat list \<Rightarrow> real \<times> real) \<Rightarrow> ImageData \<Rightarrow> DataRange2D \<Rightarrow> DataRange2D" where
  "detach_source B source self =
     self\<lparr>listeners := listeners self - {source},
          xrange := remove_source1 B (xdata source) (xrange self),
          yrange := remove_source1 B (ydata source) (yrange self)\<rparr>"

definition attach_source :: "(nat list \<Rightarrow> real \<times> real) \<Rightarrow> ImageData \<Rightarrow> DataRange2D \<Rightarrow> DataRange2D" where
  "attach_source B source self =
     self\<lparr>listeners := insert source (listeners self),
          xrange := add1 B (xdata source) (xrange self),
          yrange := add1 B (ydata source) (yrange self)\<rparr>"

text \<open>\<open>_sources_items_changed(event)\<close>, with \<open>event.removed\<close> and \<open>event.added\<close>.\<close>

definition sources_items_changed ::
  "(nat list \<Rightarrow> real \<times> real) \<Rightarrow> ImageData list \<Rightarrow> ImageData list \<Rightarrow> DataRange2D \<Rightarrow> DataRange2D" where
  "sources_items_changed B removed added self =
     fold (attach_source B) added (fold (detach_source B) removed (refresh B self))"

text \<open>\<open>_sources_changed(old, new)\<close>.\<close>

definition sources_changed ::
  "(nat list \<Rightarrow> real \<times> real) \<Rightarrow> ImageData list \<Rightarrow> ImageData list \<Rightarrow> DataRange2D \<Rightarrow> DataRange2D" where
  "sources_changed B old new self =
     fold (attach_source B) new (fold (detach_source B) old (refresh B self))"

subsection \<open>What the properties speak about\<close>

text \<open>A point lies within the rectangle of the range.\<close>

definition inside :: "DataRange2D \<Rightarrow> real \<times> real \<Rightarrow> bool" where
  "inside self p =
     (fst (get_low self) \<le> fst p \<and> fst p \<le> fst (get_high self) \<and>
      snd (get_low self) \<le> snd p \<and> snd p \<le> snd (get_high self))"

text \<open>The bounds of a one-dimensional range that are set to \<open>'auto'\<close> are up to date.\<close>

definition fresh1 :: "(nat list \<Rightarrow> real \<times> real) \<Rightarrow> DataRange1D \<Rightarrow> bool" where
  "fresh1 B r =
     ((if low_setting1 r = Auto then low_value1 r = fst (B (sources1 r)) else True) \<and>
      (if high_setting1 r = Auto then high_value1 r = snd (B (sources1 r)) else True))"

text \<open>
  A range as the class creates it (no sources, every bound \<open>'auto'\<close>; the values stand
  for the infinite defaults), a bounds function (the extent of the source numbers), and
  two image data sources.
\<close>

definition new_range1 :: DataRange1D where
  "new_range1 = \<lparr>sources1 = [], low_setting1 = Auto, high_setting1 = Auto,
                 low_value1 = 0, high_value1 = 0\<rparr>"

definition new_range :: DataRange2D where
  "new_range = \<lparr>sources = [], low_setting_p = (Auto, Auto), high_setting_p = (Auto, Auto),
                xrange = new_range1, yrange = new_range1, listeners = {}\<rparr>"

definition extent :: "nat list \<Rightarrow> real \<times> real" where
  "extent ds = (if ds = [] then (0, 0) else (real (Min (set ds)), real (Max (set ds))))"

definition image_a :: ImageData where
  "image_a = \<lparr>ident = 1, xdata = 10, ydata = 11\<rparr>"

definition image_b :: ImageData where
  "image_b = \<lparr>ident = 2, xdata = 20, ydata = 21\<rparr>"

text \<open>
  The new range with the bounds set to the rectangle from (0, 1) to (10, 5), five points,
  and a one-dimensional range with user-set bounds.
\<close>

definition box_range :: DataRange2D where
  "box_range = set_bounds extent (Num 0, Num 1) (Num 10, Num 5) new_range"

definition five_points :: "(real \<times> real) list" where
  "five_points = [(5, 3), (11, 3), (0, 1), (2, 6), (10, 5)]"

definition user_range1 :: DataRange1D where
  "user_range1 = \<lparr>sources1 = [], low_setting1 = Num 2, high_setting1 = Num 3,
                  low_value1 = 2, high_value1 = 3\<rparr>"

text \<open>The new range after the source \<open>image_a\<close> was added to its sources.\<close>

definition range_a :: DataRange2D where
  "range_a = sources_items_changed extent [] [image_a] new_range"

section \<open>The arrow of a data label: \<open>enthought/chaco2/data_label.py\<close>\<close>

text \<open>Vectors of the plane by their values, with the elementwise operations of numpy.\<close>

type_synonym vec = "real \<times> real"





text \<open>\<open>numpy.linalg.norm\<close> of a vector.\<close>

definition norm2 :: "vec \<Rightarrow> real" where
  "norm2 a = sqrt ((fst a)\<^sup>2 + (snd a)\<^sup>2)"












section \<open>Properties\<close>

subsection \<open>The mappers of a component\<close>

lemma set_get_mappers [simp]:
  "set_state_value_mapper (state_value_mapper c) (set_state_index_mapper (state_index_mapper c) c) = c"
  by (simp add: set_state_value_mapper_def set_state_index_mapper_def state_value_mapper_def
      state_index_mapper_def split: index_mapper_t.splits)

lemma get_set_mappers [simp]:
  "state_index_mapper (set_state_index_mapper m c) = m"
  "state_value_mapper (set_state_value_mapper m c) = m"
  "state_value_mapper (set_state_index_mapper m c) = state_value_mapper c"
  "state_index_mapper (set_state_value_mapper m c) = state_index_mapper c"
  by (simp_all add: set_state_value_mapper_def set_state_index_mapper_def state_value_mapper_def
      state_index_mapper_def split: index_mapper_t.splits)

lemma set_set_mappers [simp]:
  "set_state_index_mapper m (set_state_index_mapper m' c) = set_state_index_mapper m c"
  "set_state_value_mapper m (set_state_value_mapper m' c) = set_state_value_mapper m c"
  "set_state_index_mapper m (set_state_value_mapper m' c) = set_state_value_mapper m' (set_state_index_mapper m c)"
  by (simp_all add: set_state_value_mapper_def set_state_index_mapper_def state_value_mapper_def
      state_index_mapper_def split: index_mapper_t.splits)

lemma set_mapper_frame [simp]:
  "orientation (set_state_index_mapper m c) = orientation c"
  "orientation (set_state_value_mapper m c) = orientation c"
  "bounds (set_state_index_mapper m c) = bounds c"
  "bounds (set_state_value_mapper m c) = bounds c"
  by (simp_all add: set_state_value_mapper_def set_state_index_mapper_def split: index_mapper_t.splits)


lemma tool_eqI:
  "settings s = settings s' \<Longrightarrow> history s = history s' \<Longrightarrow> history_index s = history_index s' \<Longrightarrow>
   component s = component s' \<Longrightarrow> index_factor s = index_factor s' \<Longrightarrow>
   value_factor s = value_factor s' \<Longrightarrow> s = (s' :: BetterZoom)"
  by (cases s, cases s') (simp add: settings_def)

lemma settings_upd [simp]:
  "settings (s\<lparr>component := c\<rparr>) = settings s"
  "settings (s\<lparr>index_factor := i\<rparr>) = settings s"
  "settings (s\<lparr>value_factor := v\<rparr>) = settings s"
  "settings (s\<lparr>history := h\<rparr>) = settings s"
  "settings (s\<lparr>history_index := n\<rparr>) = settings s"
  by (simp_all add: settings_def)

lemma layout_set [simp]:
  "layout (set_state_index_mapper m c) = layout c"
  "layout (set_state_value_mapper m c) = layout c"
  by (simp_all add: layout_def)

lemma layout_pan [simp]: "layout (pan_mappers f c) = layout c"
  by (simp add: pan_mappers_def Let_def)

lemma zoom_move_frame:
  "zoom_move a b s = (oc, s') \<Longrightarrow>
   settings s' = settings s \<and> history s' = history s \<and> history_index s' = history_index s \<and>
   layout (component s') = layout (component s)"
  unfolding zoom_move_def
  by (cases "zoom_axis (state_index_mapper (component s)) (fst b) (fst a)";
      cases "zoom_axis (state_value_mapper (component s)) (snd b) (snd a)") auto

lemma apply_frame:
  "apply_state E st s = (oc, s') \<Longrightarrow>
   settings s' = settings s \<and> history s' = history s \<and> history_index s' = history_index s \<and>
   layout (component s') = layout (component s)"
  "apply_states E sts s = (oc, s') \<Longrightarrow>
   settings s' = settings s \<and> history s' = history s \<and> history_index s' = history_index s \<and>
   layout (component s') = layout (component s)"
proof (induction E st s and E sts s arbitrary: oc s' and oc s' rule: apply_state_apply_states.induct)
  case (1 E prev nxt self)
  then show ?case using zoom_move_frame by simp
next
  case (5 E s ss self)
  show ?case
  proof (cases "apply_state E s self")
    case (Pair o1 s1)
    note f1 = "5.IH"(1)[OF Pair]
    show ?thesis
    proof (cases o1)
      case Returned
      with Pair "5.prems" have "apply_states E ss s1 = (oc, s')" by simp
      from "5.IH"(2)[OF Pair[symmetric] Returned this] f1 show ?thesis by simp
    next
      case (Raised e)
      with Pair "5.prems" have "s' = s1" by simp
      with f1 show ?thesis by simp
    qed
  qed
qed auto


lemma zoom_in_mapper_Inr:
  "zoom_in_mapper m q = Inr m' \<longleftrightarrow>
   q \<noteq> 0 \<and> m' = m\<lparr>range_of := (range_of m)\<lparr>
        high := (low (range_of m) + high (range_of m)) / 2 + (high (range_of m) - low (range_of m)) / q / 2,
        low := (low (range_of m) + high (range_of m)) / 2 - (high (range_of m) - low (range_of m)) / q / 2\<rparr>\<rparr>"
  by (auto simp: zoom_in_mapper_def py_div_def Let_def)

lemma zoom_mapper_by_back:
  assumes "zoom_mapper_by m n p = Inr m'"
  shows "zoom_mapper_by m' p n = Inr m"
proof -
  from assms have p: "p \<noteq> 0" and n: "n \<noteq> 0"
    and m': "m' = m\<lparr>range_of := (range_of m)\<lparr>
        high := (low (range_of m) + high (range_of m)) / 2 + (high (range_of m) - low (range_of m)) / (n / p) / 2,
        low := (low (range_of m) + high (range_of m)) / 2 - (high (range_of m) - low (range_of m)) / (n / p) / 2\<rparr>\<rparr>"
    by (auto simp: zoom_mapper_by_def py_div_def zoom_in_mapper_Inr split: if_splits)
  have "zoom_mapper_by m' p n = zoom_in_mapper m' (p / n)"
    using n by (simp add: zoom_mapper_by_def py_div_def)
  also have "\<dots> = Inr m"
    using p n unfolding zoom_in_mapper_Inr m'
    by (cases m) (simp add: field_simps)
  finally show ?thesis .
qed



lemma zoom_axis_back: "zoom_axis m n p = Inr m' \<Longrightarrow> zoom_axis m' p n = Inr m"
  by (auto simp: zoom_axis_def intro: zoom_mapper_by_back split: if_splits)


lemma zoom_move_back:
  assumes "zoom_move a b s = (Returned, s')"
  shows "zoom_move b a s' =
         (Returned, s'\<lparr>component := component s, index_factor := fst a, value_factor := snd a\<rparr>)"
proof -
  from assms obtain im vm where
    im: "zoom_axis (state_index_mapper (component s)) (fst b) (fst a) = Inr im" and
    vm: "zoom_axis (state_value_mapper (component s)) (snd b) (snd a) = Inr vm" and
    s': "s' = s\<lparr>component := set_state_value_mapper vm (set_state_index_mapper im (component s)),
                index_factor := fst b, value_factor := snd b\<rparr>"
    by (auto simp: zoom_move_def split: sum.splits)
  show ?thesis
    by (simp add: zoom_move_def s' zoom_axis_back[OF im] zoom_axis_back[OF vm])
qed


lemma do_zoom_uniform:
  "do_zoom E op self f =
     (case new_factors op self f of
        None \<Rightarrow> (Raised ZeroDivisionError, self)
      | Some fs \<Rightarrow>
          if list_ex (\<lambda>ax. zoom_limit_reached self (axis_factor self fs ax) ax) (checked_axes op)
          then (Returned, self)
          else apply_and_append E self (fst fs) (snd fs))"
proof (cases "orientation (component self)")
  case H
  then show ?thesis
    by (cases op; cases "axis self")
       (simp_all add: do_zoom_def new_factors_def the_factor_def checked_axes_def axis_factor_def
          zoom_in_def zoom_out_def zoom_in_x_def zoom_out_x_def zoom_in_y_def zoom_out_y_def
          py_div_def Let_def)
next
  case V
  then show ?thesis
    by (cases op; cases "axis self")
       (simp_all add: do_zoom_def new_factors_def the_factor_def checked_axes_def axis_factor_def
          zoom_in_def zoom_out_def zoom_in_x_def zoom_out_x_def zoom_in_y_def zoom_out_y_def
          py_div_def Let_def)
qed


lemma zoom_move_factors:
  "zoom_move a b s = (oc, s') \<Longrightarrow>
   (if oc = Returned then index_factor s' = fst b \<and> value_factor s' = snd b
    else index_factor s' = index_factor s \<and> value_factor s' = value_factor s)"
  unfolding zoom_move_def by (auto split: sum.splits)

lemma append_state_frame [simp]:
  "settings (append_state st s) = settings s"
  "component (append_state st s) = component s"
  "index_factor (append_state st s) = index_factor s"
  "value_factor (append_state st s) = value_factor s"
  by (simp_all add: append_state_def Let_def)

lemma apply_and_append_effect:
  assumes "apply_and_append E s ni nv = (oc, s')"
  shows "settings s' = settings s \<and> layout (component s') = layout (component s) \<and>
         (if oc = Returned then index_factor s' = ni \<and> value_factor s' = nv
          else index_factor s' = index_factor s \<and> value_factor s' = value_factor s)"
proof (cases "zoom_to_mouse s")
  case False
  obtain o1 s1 where z: "zoom_move (index_factor s, value_factor s) (ni, nv) s = (o1, s1)"
    by (cases "zoom_move (index_factor s, value_factor s) (ni, nv) s")
  from zoom_move_frame[OF z] zoom_move_factors[OF z] assms False z show ?thesis
    by (cases o1) (auto simp: apply_and_append_def Let_def)
next
  case True
  define p where "p = s\<lparr>component := pan_mappers
      (pan_apply E (map_data E (get_x_mapper (component s)) (fst (bounds (component s)) / 2),
                    map_data E (get_y_mapper (component s)) (snd (bounds (component s)) / 2))
                   (map_data E (get_x_mapper (component s)) (fst (position s)),
                    map_data E (get_y_mapper (component s)) (snd (position s))))
      (component s)\<rparr>"
  obtain o1 s1 where z: "zoom_move (index_factor s, value_factor s) (ni, nv) p = (o1, s1)"
    by (cases "zoom_move (index_factor s, value_factor s) (ni, nv) p")
  have pf: "settings p = settings s" "layout (component p) = layout (component s)"
    "index_factor p = index_factor s" "value_factor p = value_factor s"
    by (simp_all add: p_def)
  from zoom_move_frame[OF z] zoom_move_factors[OF z] assms True z pf show ?thesis
    by (cases o1) (auto simp: apply_and_append_def Let_def p_def)
qed

lemma within_limits_cong:
  "settings s' = settings s \<Longrightarrow> layout (component s') = layout (component s) \<Longrightarrow>
   within_limits s' fs = within_limits s fs"
  by (simp add: within_limits_def axis_factor_def settings_def layout_def split: xy_axis_t.splits)

lemma limits_of_cong:
  "settings s' = settings s \<Longrightarrow> layout (component s') = layout (component s) \<Longrightarrow>
   limits_of s' = limits_of s"
  by (simp add: limits_of_def settings_def layout_def)

lemma not_reached_within:
  "\<not> zoom_limit_reached s (axis_factor s fs X) X \<Longrightarrow> \<not> zoom_limit_reached s (axis_factor s fs Y) Y
   \<Longrightarrow> within_limits s fs"
  by (simp add: within_limits_def zoom_limit_reached_def split: if_splits)

lemma new_factors_unchecked_axis:
  "new_factors op s f = Some fs \<Longrightarrow> ax \<notin> set (checked_axes op) \<Longrightarrow>
   axis_factor s fs ax = axis_factor s (index_factor s, value_factor s) ax"
  by (cases op; cases ax; cases "orientation (component s)")
     (auto simp: new_factors_def checked_axes_def axis_factor_def Let_def split: if_splits)

lemma within_limits_reached:
  "within_limits s fs \<longleftrightarrow>
   \<not> zoom_limit_reached s (axis_factor s fs X) X \<and> \<not> zoom_limit_reached s (axis_factor s fs Y) Y"
  by (auto simp: within_limits_def zoom_limit_reached_def)

lemma do_zoom_invariant:
  assumes "do_zoom E op s f = (oc, s')" and "factors_within_limits s"
  shows "factors_within_limits s' \<and> limits_of s' = limits_of s"
proof (cases "new_factors op s f")
  case None
  with assms show ?thesis by (simp add: do_zoom_uniform)
next
  case (Some fs)
  show ?thesis
  proof (cases "list_ex (\<lambda>ax. zoom_limit_reached s (axis_factor s fs ax) ax) (checked_axes op)")
    case True
    with Some assms show ?thesis by (simp add: do_zoom_uniform)
  next
    case False
    with Some assms have aa: "apply_and_append E s (fst fs) (snd fs) = (oc, s')"
      by (simp add: do_zoom_uniform)
    note eff = apply_and_append_effect[OF aa]
    have ok: "\<not> zoom_limit_reached s (axis_factor s fs ax) ax" for ax
    proof (cases "ax \<in> set (checked_axes op)")
      case True
      with False show ?thesis by (auto simp: list_ex_iff)
    next
      case False
      from new_factors_unchecked_axis[OF Some False] assms(2) show ?thesis
        by (cases ax) (auto simp: factors_within_limits_def within_limits_reached)
    qed
    then have w: "within_limits s fs" by (simp add: within_limits_reached)
    have lim: "limits_of s' = limits_of s" using eff limits_of_cong[of s' s] by simp
    have wc: "within_limits s' gs = within_limits s gs" for gs
      using eff within_limits_cong[of s' s gs] by simp
    have "within_limits s' (index_factor s', value_factor s')"
    proof (cases "oc = Returned")
      case True
      with eff have "(index_factor s', value_factor s') = fs" by simp
      with w wc show ?thesis by simp
    next
      case False
      with eff have "(index_factor s', value_factor s') = (index_factor s, value_factor s)" by simp
      with assms(2) wc show ?thesis by (simp add: factors_within_limits_def)
    qed
    with lim show ?thesis by (simp add: factors_within_limits_def)
  qed
qed

lemma run_zooms_invariant:
  "factors_within_limits s \<Longrightarrow>
   factors_within_limits (snd (run_zooms E cs s)) \<and> limits_of (snd (run_zooms E cs s)) = limits_of s"
proof (induction cs arbitrary: s)
  case Nil
  then show ?case by simp
next
  case (Cons c cs)
  obtain oc s1 where d: "do_zoom E (fst c) s (snd c) = (oc, s1)"
    by (cases "do_zoom E (fst c) s (snd c)")
  note inv = do_zoom_invariant[OF d Cons.prems]
  show ?case
  proof (cases oc)
    case Returned
    with d Cons.IH[of s1] inv show ?thesis by simp
  next
    case (Raised e)
    with d inv show ?thesis by simp
  qed
qed


lemma zoom_limit_reached_outside:
  "zoom_limit_reached self v ax = outside_limits self ax v"
  by (cases ax) (auto simp: zoom_limit_reached_def outside_limits_def)

text \<open>
  C4. For a mapper with (finite) bounds and a nonzero factor \<open>f\<close>,
  \<open>_zoom_in_mapper(mapper, f)\<close> returns, the midpoint \<open>(low + high) / 2\<close> of the range
  is unchanged and the new width \<open>high - low\<close> is the old width divided by \<open>f\<close>.
\<close>

theorem zoom_in_mapper_keeps_midpoint:
  "factor \<noteq> 0 \<Longrightarrow>
   (\<exists>m'. zoom_in_mapper m factor = Inr m' \<and>
      (low (range_of m') + high (range_of m')) / 2 = (low (range_of m) + high (range_of m)) / 2 \<and>
      high (range_of m') - low (range_of m') = (high (range_of m) - low (range_of m)) / factor)"
  by (simp add: zoom_in_mapper_Inr field_simps)

theorem zoom_in_mapper_keeps_midpoint_witness:
  "(4::real) \<noteq> 0 \<and>
   zoom_in_mapper \<lparr>range_of = \<lparr>low = 2, high = 10\<rparr>\<rparr> 4 = Inr \<lparr>range_of = \<lparr>low = 5, high = 7\<rparr>\<rparr> \<and>
   (\<exists>m'. zoom_in_mapper \<lparr>range_of = \<lparr>low = 2, high = 10\<rparr>\<rparr> 4 = Inr m' \<and>
      (low (range_of m') + high (range_of m')) / 2 = (2 + 10) / 2 \<and>
      high (range_of m') - low (range_of m') = (10 - 2) / 4)"
  using zoom_in_mapper_keeps_midpoint [of 4 "\<lparr>range_of = \<lparr>low = 2, high = 10\<rparr>\<rparr>"]
  by (simp add: zoom_in_mapper_def py_div_def Let_def)

text \<open>
  C1, as amended. A zoom operation checks the prospective factor of both screen axes
  (\<open>zoom_in\<close>, \<open>zoom_out\<close>), of the x axis only (\<open>zoom_in_x\<close>, \<open>zoom_out_x\<close>)
  or of the y axis only (\<open>zoom_in_y\<close>, \<open>zoom_out_y\<close>). When the prospective factor
  of an axis it checks lies outside the limits of that axis, the operation returns with
  the whole tool (factors, history, mapper ranges) unchanged. Starting from factors within
  the limits, the factors are within the limits of their screen axes after any sequence
  of zoom operations, and the limits and the orientation are as before.
\<close>

theorem zoom_limits_respected:
  "(new_factors op self f = Some fs \<and> ax \<in> set (checked_axes op) \<and>
      outside_limits self ax (axis_factor self fs ax)
      \<longrightarrow> do_zoom E op self f = (Returned, self)) \<and>
   (factors_within_limits self
      \<longrightarrow> factors_within_limits (snd (run_zooms E cs self)) \<and>
          limits_of (snd (run_zooms E cs self)) = limits_of self)"
proof (intro conjI impI)
  assume a: "new_factors op self f = Some fs \<and> ax \<in> set (checked_axes op) \<and>
      outside_limits self ax (axis_factor self fs ax)"
  then have "list_ex (\<lambda>ax. zoom_limit_reached self (axis_factor self fs ax) ax) (checked_axes op)"
    by (auto simp: list_ex_iff zoom_limit_reached_outside)
  with a show "do_zoom E op self f = (Returned, self)"
    by (simp add: do_zoom_uniform)
next
  assume "factors_within_limits self"
  then show "factors_within_limits (snd (run_zooms E cs self))"
    and "limits_of (snd (run_zooms E cs self)) = limits_of self"
    using run_zooms_invariant by blast+
qed

lemmas tool_defs = default_tool_def plot_def shift_env_def shift_mapper_def
lemmas zoom_defs = do_zoom_def zoom_in_def zoom_out_def zoom_in_x_def zoom_out_x_def zoom_in_y_def
  zoom_out_y_def apply_and_append_def zoom_move_def zoom_axis_def zoom_mapper_by_def
  zoom_in_mapper_def py_div_def zoom_limit_reached_def append_state_def
  state_index_mapper_def state_value_mapper_def set_state_index_mapper_def
  set_state_value_mapper_def pan_mappers_def get_x_mapper_def get_y_mapper_def Let_def

text \<open>
  C1, as stated, fails: on a horizontal plot whose y factor 1 is below a lower y limit
  of 2, \<open>zoom_in_x(2)\<close> has a prospective y factor outside the y limits and yet zooms
  the index axis and appends to the history.
\<close>

theorem unchecked_axis_counterexample:
  "new_factors Zoom_in_x y_limited_tool 2 = Some (2, 1) \<and>
   outside_limits y_limited_tool Y (axis_factor y_limited_tool (2, 1) Y) \<and>
   do_zoom shift_env Zoom_in_x y_limited_tool 2 \<noteq> (Returned, y_limited_tool) \<and>
   index_factor (snd (do_zoom shift_env Zoom_in_x y_limited_tool 2)) = 2 \<and>
   length (history (snd (do_zoom shift_env Zoom_in_x y_limited_tool 2))) = 2"
  by (simp add: y_limited_tool_def tool_defs zoom_defs new_factors_def the_factor_def
      outside_limits_def axis_factor_def)

theorem zoom_limits_respected_witness:
  "new_factors Zoom_in default_tool 200000 = Some (200000, 200000) \<and>
   X \<in> set (checked_axes Zoom_in) \<and>
   outside_limits default_tool X (axis_factor default_tool (200000, 200000) X) \<and>
   do_zoom shift_env Zoom_in default_tool 200000 = (Returned, default_tool) \<and>
   factors_within_limits default_tool \<and>
   factors_within_limits
     (snd (run_zooms shift_env [(Zoom_in, 0), (Zoom_out_x, 4), (Zoom_in_y, 200000)] default_tool)) \<and>
   index_factor
     (snd (run_zooms shift_env [(Zoom_in, 0), (Zoom_out_x, 4), (Zoom_in_y, 200000)] default_tool)) = 1 / 2"
  using zoom_limits_respected [of Zoom_in default_tool 200000 "(200000, 200000)" X shift_env
      "[(Zoom_in, 0), (Zoom_out_x, 4), (Zoom_in_y, 200000)]"]
  by (simp add: tool_defs zoom_defs new_factors_def the_factor_def outside_limits_def
      axis_factor_def checked_axes_def factors_within_limits_def within_limits_def)

subsection \<open>Undo and redo\<close>

lemma revert_frame:
  "revert_state E st s = (oc, s') \<Longrightarrow>
   settings s' = settings s \<and> history s' = history s \<and> history_index s' = history_index s \<and>
   layout (component s') = layout (component s)"
  "revert_states E sts s = (oc, s') \<Longrightarrow>
   settings s' = settings s \<and> history s' = history s \<and> history_index s' = history_index s \<and>
   layout (component s') = layout (component s)"
proof (induction E st s and E sts s arbitrary: oc s' and oc s' rule: revert_state_revert_states.induct)
  case (1 E prev nxt self)
  then show ?case using zoom_move_frame by simp
next
  case (5 E s ss self)
  show ?case
  proof (cases "revert_states E ss self")
    case (Pair o1 s1)
    note f1 = "5.IH"(1)[OF Pair]
    show ?thesis
    proof (cases o1)
      case Returned
      with Pair "5.prems" have "revert_state E s s1 = (oc, s')" by simp
      from "5.IH"(2)[OF Pair[symmetric] Returned this] f1 show ?thesis by simp
    next
      case (Raised e)
      with Pair "5.prems" have "s' = s1" by simp
      with f1 show ?thesis by simp
    qed
  qed
qed auto

lemma zoom_move_history:
  "zoom_move a b (s\<lparr>history := h, history_index := n\<rparr>) =
   (fst (zoom_move a b s), (snd (zoom_move a b s))\<lparr>history := h, history_index := n\<rparr>)"
  by (simp add: zoom_move_def split: sum.splits)

lemma apply_history:
  "apply_state E st (s\<lparr>history := h, history_index := n\<rparr>) =
   (fst (apply_state E st s), (snd (apply_state E st s))\<lparr>history := h, history_index := n\<rparr>)"
  "apply_states E sts (s\<lparr>history := h, history_index := n\<rparr>) =
   (fst (apply_states E sts s), (snd (apply_states E sts s))\<lparr>history := h, history_index := n\<rparr>)"
proof (induction E st s and E sts s rule: apply_state_apply_states.induct)
  case (1 E prev nxt self)
  then show ?case by (simp add: zoom_move_history)
next
  case (5 E s ss self)
  show ?case
  proof (cases "apply_state E s self")
    case (Pair o1 s1)
    show ?thesis
    proof (cases o1)
      case Returned
      with Pair "5.IH"(1) "5.IH"(2)[OF Pair[symmetric] Returned] show ?thesis by simp
    next
      case (Raised e)
      with Pair "5.IH"(1) show ?thesis by simp
    qed
  qed
qed auto


lemma apply_and_append_record:
  "apply_and_append E s ni nv =
     (case apply_state E (zoom_record E s ni nv) s of
        (Raised e, s') \<Rightarrow> (Raised e, s')
      | (Returned, s') \<Rightarrow> (Returned, append_state (zoom_record E s ni nv) s'))"
  by (simp add: apply_and_append_def zoom_record_def Let_def split: prod.splits outcome.splits)

lemma pan_mappers_inverse:
  assumes "pan_reversible E"
  shows "pan_mappers (pan_revert E p n) (pan_mappers (pan_apply E p n) c) = c"
proof -
  have "pan_revert E p n (pan_apply E p n ms) = ms" for ms
    using assms unfolding pan_reversible_def by blast
  then show ?thesis by (simp add: pan_mappers_def Let_def)
qed

lemma zoom_record_back:
  assumes ap: "apply_state E (zoom_record E s0 ni nv) s = (Returned, s1)"
    and pr: "zoom_to_mouse s0 \<longrightarrow> pan_reversible E"
  shows "revert_state E (zoom_record E s0 ni nv) s1 =
         (Returned, s1\<lparr>component := component s, index_factor := index_factor s0,
                        value_factor := value_factor s0\<rparr>)"
proof (cases "zoom_to_mouse s0")
  case False
  with ap have "zoom_move (index_factor s0, value_factor s0) (ni, nv) s = (Returned, s1)"
    by (simp add: zoom_record_def)
  from zoom_move_back[OF this] False show ?thesis
    by (simp add: zoom_record_def)
next
  case True
  define p where "p = (map_data E (get_x_mapper (component s0)) (fst (bounds (component s0)) / 2),
                        map_data E (get_y_mapper (component s0)) (snd (bounds (component s0)) / 2))"
  define n where "n = (map_data E (get_x_mapper (component s0)) (fst (position s0)),
                        map_data E (get_y_mapper (component s0)) (snd (position s0)))"
  define sp where "sp = s\<lparr>component := pan_mappers (pan_apply E p n) (component s)\<rparr>"
  have rec: "zoom_record E s0 ni nv =
      GroupedToolState [PanState p n, ZoomState (index_factor s0, value_factor s0) (ni, nv)]"
    using True by (simp add: zoom_record_def p_def n_def)
  from ap have zm: "zoom_move (index_factor s0, value_factor s0) (ni, nv) sp = (Returned, s1)"
    by (simp add: rec sp_def split: prod.splits outcome.splits)
  from True pr have "pan_mappers (pan_revert E p n) (component sp) = component s"
    by (simp add: sp_def pan_mappers_inverse)
  with zoom_move_back[OF zm] show ?thesis
    by (simp add: rec)
qed


lemma passes_not_reached:
  "passes_limit_check op s f \<Longrightarrow>
   \<exists>fs. new_factors op s f = Some fs \<and>
     \<not> list_ex (\<lambda>ax. zoom_limit_reached s (axis_factor s fs ax) ax) (checked_axes op)"
  by (auto simp: passes_limit_check_def zoom_limit_reached_outside split: option.splits)

text \<open>
  Where the history holds a state before the zoom (as the initial history
  \<open>[ZoomState((1.0, 1.0), (1.0, 1.0))]\<close> does), undo and redo are a round trip, in
  exact arithmetic: after a zoom operation that passes the limit check and returns, its
  state is the last and current one of the history; the previous-state action restores
  the factors and the mappers and keeps the history; the next-state action after that
  restores the whole tool as it was after the zoom. With \<open>zoom_to_mouse\<close> set this
  needs a \<open>PanState\<close> whose \<open>revert\<close> undoes its \<open>apply\<close>.
\<close>

lemma zoom_back_forward:
  assumes hist: "history self \<noteq> []"
    and pass: "passes_limit_check op self f"
    and ret: "do_zoom E op self f = (Returned, self')"
    and pr: "zoom_to_mouse self \<longrightarrow> pan_reversible E"
  shows "\<exists>st undone.
           history self' = take (history_index self + 1) (history self) @ [st] \<and>
           history_index self' = length (history self') - 1 \<and>
           prev_state_action E self' = (Returned, undone) \<and>
           index_factor undone = index_factor self \<and>
           value_factor undone = value_factor self \<and>
           component undone = component self \<and>
           history undone = history self' \<and>
           next_state_action E undone = (Returned, self')"
proof -
  from passes_not_reached[OF pass] obtain fs where
    fs: "new_factors op self f = Some fs" and
    nr: "\<not> list_ex (\<lambda>ax. zoom_limit_reached self (axis_factor self fs ax) ax) (checked_axes op)"
    by blast
  define st where "st = zoom_record E self (fst fs) (snd fs)"
  define new where "new = take (history_index self + 1) (history self) @ [st]"
  define k where "k = length new - 1"
  from ret fs nr have aa: "apply_and_append E self (fst fs) (snd fs) = (Returned, self')"
    by (simp add: do_zoom_uniform)
  obtain o1 s1 where ap: "apply_state E st self = (o1, s1)"
    by (cases "apply_state E st self")
  from aa ap have o1: "o1 = Returned" and self': "self' = append_state st s1"
    by (auto simp: apply_and_append_record st_def split: outcome.splits)
  note fr = apply_frame(1)[OF ap]
  have self'_eq: "self' = s1\<lparr>history := new, history_index := k\<rparr>"
    using fr by (simp add: self' append_state_def Let_def new_def k_def)
  from hist have tk: "take (history_index self + 1) (history self) \<noteq> []" by simp
  then have len: "length new = length (take (history_index self + 1) (history self)) + 1"
    and k_pos: "0 < k" and k_lt: "k < length new" and nth: "new ! k = st"
    by (simp_all add: new_def k_def nth_append)
  define undone where "undone = s1\<lparr>history := new, history_index := k - 1,
      component := component self, index_factor := index_factor self,
      value_factor := value_factor self\<rparr>"
  have ap_h: "apply_state E st (self\<lparr>history := h, history_index := n\<rparr>) =
      (Returned, s1\<lparr>history := h, history_index := n\<rparr>)" for h n
    using ap o1 by (simp add: apply_history)
  have rv: "revert_state E st (s1\<lparr>history := new, history_index := k - 1\<rparr>) = (Returned, undone)"
    using zoom_record_back[OF ap_h[where h=new and n="k - 1", unfolded st_def] pr]
    by (simp add: st_def undone_def)
  have prev: "prev_state_action E self' = (Returned, undone)"
    using k_pos k_lt nth rv
    by (simp add: prev_state_action_def prev_state_pressed_def self'_eq)
  have fwd_state: "undone\<lparr>history_index := k\<rparr> = self\<lparr>history := new, history_index := k\<rparr>"
    by (rule tool_eqI) (simp_all add: undone_def fr)
  have "next_state_action E undone = next_state_pressed E (undone\<lparr>history_index := k\<rparr>)"
    using k_pos k_lt by (simp add: next_state_action_def undone_def)
  also have "\<dots> = apply_state E st (self\<lparr>history := new, history_index := k\<rparr>)"
    using k_lt nth by (simp add: next_state_pressed_def current_state_def fwd_state)
  also have "\<dots> = (Returned, self')"
    by (simp add: ap_h self'_eq)
  finally have nxt: "next_state_action E undone = (Returned, self')" .
  have "history self' = take (history_index self + 1) (history self) @ [st]"
    by (simp add: self'_eq new_def)
  moreover have "history_index self' = length (history self') - 1"
    by (simp add: self'_eq k_def)
  moreover have "index_factor undone = index_factor self" "value_factor undone = value_factor self"
    "component undone = component self" "history undone = history self'"
    by (simp_all add: undone_def self'_eq)
  ultimately show ?thesis using prev nxt by blast
qed


lemma pan_reversible_shift_env: "pan_reversible shift_env"
  by (simp add: pan_reversible_def shift_env_def shift_mapper_def)

lemma zoom_back_forward_example:
  "history mouse_tool \<noteq> [] \<and> passes_limit_check Zoom_in mouse_tool 0 \<and>
   fst (do_zoom shift_env Zoom_in mouse_tool 0) = Returned \<and>
   index_factor (snd (do_zoom shift_env Zoom_in mouse_tool 0)) = 2 \<and>
   component (snd (do_zoom shift_env Zoom_in mouse_tool 0)) \<noteq> plot \<and>
   zoom_to_mouse mouse_tool \<and> pan_reversible shift_env \<and>
   (\<exists>st undone.
      history (snd (do_zoom shift_env Zoom_in mouse_tool 0)) = [ZoomState (1, 1) (1, 1), st] \<and>
      prev_state_action shift_env (snd (do_zoom shift_env Zoom_in mouse_tool 0)) = (Returned, undone) \<and>
      index_factor undone = 1 \<and> value_factor undone = 1 \<and> component undone = plot \<and>
      next_state_action shift_env undone = (Returned, snd (do_zoom shift_env Zoom_in mouse_tool 0)))"
proof -
  have h1: "history mouse_tool \<noteq> []"
    by (simp add: mouse_tool_def default_tool_def)
  have h2: "passes_limit_check Zoom_in mouse_tool 0"
    by (simp add: passes_limit_check_def new_factors_def the_factor_def checked_axes_def
        outside_limits_def axis_factor_def mouse_tool_def tool_defs)
  have h3: "fst (do_zoom shift_env Zoom_in mouse_tool 0) = Returned"
    and h3': "index_factor (snd (do_zoom shift_env Zoom_in mouse_tool 0)) = 2"
    and h3'': "component (snd (do_zoom shift_env Zoom_in mouse_tool 0)) \<noteq> plot"
    by (simp_all add: mouse_tool_def tool_defs zoom_defs)
  have h4: "zoom_to_mouse mouse_tool \<longrightarrow> pan_reversible shift_env"
    by (simp add: pan_reversible_shift_env)
  have h5: "do_zoom shift_env Zoom_in mouse_tool 0 =
      (Returned, snd (do_zoom shift_env Zoom_in mouse_tool 0))"
    using h3 by (simp add: prod_eq_iff)
  have m: "index_factor mouse_tool = 1" "value_factor mouse_tool = 1" "component mouse_tool = plot"
    "zoom_to_mouse mouse_tool" "history_index mouse_tool = 0"
    "history mouse_tool = [ZoomState (1, 1) (1, 1)]"
    by (simp_all add: mouse_tool_def default_tool_def)
  from zoom_back_forward [OF h1 h2 h5 h4] obtain st undone where
    "history (snd (do_zoom shift_env Zoom_in mouse_tool 0)) =
       take (history_index mouse_tool + 1) (history mouse_tool) @ [st]"
    "prev_state_action shift_env (snd (do_zoom shift_env Zoom_in mouse_tool 0)) = (Returned, undone)"
    "index_factor undone = index_factor mouse_tool"
    "value_factor undone = value_factor mouse_tool"
    "component undone = component mouse_tool"
    "next_state_action shift_env undone = (Returned, snd (do_zoom shift_env Zoom_in mouse_tool 0))"
    by blast
  then have "\<exists>st undone.
      history (snd (do_zoom shift_env Zoom_in mouse_tool 0)) = [ZoomState (1, 1) (1, 1), st] \<and>
      prev_state_action shift_env (snd (do_zoom shift_env Zoom_in mouse_tool 0)) = (Returned, undone) \<and>
      index_factor undone = 1 \<and> value_factor undone = 1 \<and> component undone = plot \<and>
      next_state_action shift_env undone = (Returned, snd (do_zoom shift_env Zoom_in mouse_tool 0))"
    unfolding m by (intro exI[of _ st] exI[of _ undone]) simp
  with h1 h2 h3 h3' h3'' m(4) pan_reversible_shift_env show ?thesis by blast
qed

text \<open>
  C2. The claim fails on the code after a reset. \<open>_reset_state_pressed\<close> assigns
  \<open>self._history = []\<close>, dropping the base state that the declared initial history
  holds at index 0. The next \<open>zoom_in()\<close> passes the limit check and appends its state
  at index 0; the previous-state action, which steps back only from an index above 0,
  then reverts nothing: the tool is as it was after the zoom, with an index factor of 2
  where it was 1 before the zoom.
\<close>

theorem undo_after_reset_not_reverted:
  "reset_state_action shift_env default_tool = (Returned, reset_tool) \<and>
   passes_limit_check Zoom_in reset_tool 0 \<and>
   fst (do_zoom shift_env Zoom_in reset_tool 0) = Returned \<and>
   history (snd (do_zoom shift_env Zoom_in reset_tool 0)) = [ZoomState (1, 1) (2, 2)] \<and>
   index_factor reset_tool = 1 \<and>
   index_factor (snd (do_zoom shift_env Zoom_in reset_tool 0)) = 2 \<and>
   prev_state_action shift_env (snd (do_zoom shift_env Zoom_in reset_tool 0)) =
     (Returned, snd (do_zoom shift_env Zoom_in reset_tool 0))"
  by (simp add: reset_tool_def reset_state_action_def reset_state_pressed_def
      prev_state_action_def passes_limit_check_def new_factors_def the_factor_def
      checked_axes_def outside_limits_def axis_factor_def tool_defs zoom_defs)

subsection \<open>The mouse wheel\<close>








text \<open>
  An exception of the zoom propagates through \<open>normal_mouse_wheel\<close>, which then has not
  marked the event.
\<close>

lemma normal_mouse_wheel_raises:
  assumes "enable_wheel self" and "mouse_wheel ev \<noteq> 0"
    and "(if mouse_wheel ev > 0 then zoom_in E self 0 else zoom_out E self 0) = (Raised e, self')"
  shows "normal_mouse_wheel E self ev = (Raised e, self', ev)"
  using assms by (simp add: normal_mouse_wheel_def)




subsection \<open>The two-dimensional range\<close>

lemma refresh1_user_set:
  "low_setting1 r \<noteq> Auto \<Longrightarrow> high_setting1 r \<noteq> Auto \<Longrightarrow> refresh1 B r = r"
  by (simp add: refresh1_def)

text \<open>
  C3. For a two-dimensional range whose low and high settings contain no \<open>'auto'\<close> in
  either dimension, \<open>refresh()\<close> leaves the low and high values unchanged. (The
  method tests the private \<open>_low_setting\<close> and \<open>_high_setting\<close>, which the setters do
  not assign; the one-dimensional ranges keep the user-set bounds.)
\<close>

theorem refresh_keeps_user_bounds:
  assumes "\<not> auto_in (get_low_setting self)" and "\<not> auto_in (get_high_setting self)"
  shows "get_low (refresh B self) = get_low self \<and> get_high (refresh B self) = get_high self"
  using assms
  by (simp add: refresh_def refresh_bounds_def refresh1_user_set auto_in_def
      get_low_def get_high_def get_low_setting_def get_high_setting_def)

theorem refresh_keeps_user_bounds_witness:
  "\<not> auto_in (get_low_setting (set_bounds extent (Num 0, Num 1) (Num 10, Num 5) new_range)) \<and>
   \<not> auto_in (get_high_setting (set_bounds extent (Num 0, Num 1) (Num 10, Num 5) new_range)) \<and>
   auto_in (low_setting_p (set_bounds extent (Num 0, Num 1) (Num 10, Num 5) new_range)) \<and>
   get_low (refresh extent (set_bounds extent (Num 0, Num 1) (Num 10, Num 5) new_range)) = (0, 1) \<and>
   get_high (refresh extent (set_bounds extent (Num 0, Num 1) (Num 10, Num 5) new_range)) = (10, 5)"
  using refresh_keeps_user_bounds [of "set_bounds extent (Num 0, Num 1) (Num 10, Num 5) new_range" extent]
  by (simp add: set_bounds_def do_set_low_setting_def do_set_high_setting_def
      set_low_setting1_def set_high_setting1_def new_range_def new_range1_def auto_in_def
      get_low_def get_high_def get_low_setting_def get_high_setting_def)

lemma mask_data_map: "mask_data self data = map (inside self) data"
  by (induction data) (auto simp: mask_data_def inside_def Let_def)

lemma compress_map_filter: "compress (map P xs) xs = filter P xs"
  by (induction xs) (simp_all add: compress_def)

lemma compress_nths:
  "length c = length xs \<Longrightarrow> compress c xs = nths xs {i. i < length c \<and> c ! i}"
proof (induction c xs rule: list_induct2)
  case Nil
  then show ?case by (simp add: compress_def)
next
  case (Cons b c x xs)
  have "{j. Suc j < Suc (length c) \<and> (b # c) ! Suc j} = {i. i < length c \<and> c ! i}" by simp
  with Cons show ?case by (simp add: compress_def nths_Cons)
qed

text \<open>
  C5. For every range and every list of two-dimensional points, \<open>mask_data\<close> returns
  one boolean per point, true at position \<open>i\<close> exactly when
  \<open>low[0] <= x_i <= high[0]\<close> and \<open>low[1] <= y_i <= high[1]\<close>, and \<open>clip_data\<close> returns
  precisely the points whose mask entry is true, in their original order.
\<close>

theorem mask_and_clip:
  "length (mask_data self data) = length data \<and>
   (\<forall>i < length data.
      mask_data self data ! i =
        (fst (get_low self) \<le> fst (data ! i) \<and> fst (data ! i) \<le> fst (get_high self) \<and>
         snd (get_low self) \<le> snd (data ! i) \<and> snd (data ! i) \<le> snd (get_high self))) \<and>
   clip_data self data = nths data {i. i < length data \<and> mask_data self data ! i} \<and>
   clip_data self data = filter (inside self) data"
proof -
  have len: "length (mask_data self data) = length data"
    by (simp add: mask_data_map)
  have nth: "\<forall>i < length data.
      mask_data self data ! i =
        (fst (get_low self) \<le> fst (data ! i) \<and> fst (data ! i) \<le> fst (get_high self) \<and>
         snd (get_low self) \<le> snd (data ! i) \<and> snd (data ! i) \<le> snd (get_high self))"
    by (simp add: mask_data_map inside_def)
  have "clip_data self data = nths data {i. i < length (mask_data self data) \<and> mask_data self data ! i}"
    unfolding clip_data_def by (rule compress_nths) (rule len)
  then have n: "clip_data self data = nths data {i. i < length data \<and> mask_data self data ! i}"
    by (simp only: len)
  have f: "clip_data self data = filter (inside self) data"
    by (simp add: clip_data_def mask_data_map compress_map_filter)
  from len nth n f show ?thesis by blast
qed


lemma box_range_bounds: "get_low box_range = (0, 1)" "get_high box_range = (10, 5)"
  by (simp_all add: box_range_def set_bounds_def do_set_low_setting_def do_set_high_setting_def
      set_low_setting1_def set_high_setting1_def new_range_def new_range1_def
      get_low_def get_high_def)

theorem mask_and_clip_witness:
  "(1::nat) < length five_points \<and>
   five_points ! 1 = (11, 3) \<and> get_high box_range = (10, 5) \<and>
   mask_data box_range five_points ! 1 = False \<and>
   (2::nat) < length five_points \<and> mask_data box_range five_points ! 2 = True \<and>
   length (mask_data box_range five_points) = 5 \<and>
   clip_data box_range five_points = [(5, 3), (0, 1), (10, 5)]"
proof -
  note t = mask_and_clip [of box_range five_points]
  from t have c: "clip_data box_range five_points = filter (inside box_range) five_points"
    by blast
  from t have m: "\<forall>i < length five_points.
      mask_data box_range five_points ! i =
        (fst (get_low box_range) \<le> fst (five_points ! i) \<and>
         fst (five_points ! i) \<le> fst (get_high box_range) \<and>
         snd (get_low box_range) \<le> snd (five_points ! i) \<and>
         snd (five_points ! i) \<le> snd (get_high box_range))"
    by blast
  from t have l: "length (mask_data box_range five_points) = length five_points" by blast
  have n: "(1::nat) < length five_points" "(2::nat) < length five_points"
    by (simp_all add: five_points_def)
  from m n have "mask_data box_range five_points ! 1 = False"
    "mask_data box_range five_points ! 2 = True"
    by (simp_all add: box_range_bounds five_points_def)
  moreover have "clip_data box_range five_points = [(5, 3), (0, 1), (10, 5)]"
    unfolding c by (simp add: inside_def box_range_bounds five_points_def)
  moreover have "five_points ! 1 = (11, 3)" by (simp add: five_points_def)
  ultimately show ?thesis using n l by (simp add: box_range_bounds five_points_def)
qed

text \<open>
  C9. For every input, \<open>bound_data\<close> raises \<open>NotImplementedError\<close> and leaves the
  range as it was.
\<close>

theorem bound_data_not_implemented:
  "fst (bound_data self data) = Raised NotImplementedError \<and> snd (bound_data self data) = self"
  by (simp add: bound_data_def)

text \<open>
  C8. With a non-empty list of sources, assigning \<open>x_range\<close> or \<open>y_range\<close> raises
  \<open>NameError\<close> and the range is left as it was (the one-dimensional range is not
  replaced, no source is moved); with an empty list the assignment returns and replaces
  the one-dimensional range.
\<close>

theorem set_1d_range_name_error:
  "(sources self \<noteq> [] \<longrightarrow>
      set_x_range newrange self = (Raised NameError, self) \<and>
      set_y_range newrange self = (Raised NameError, self)) \<and>
   (sources self = [] \<longrightarrow>
      set_x_range newrange self = (Returned, self\<lparr>xrange := newrange\<rparr>) \<and>
      set_y_range newrange self = (Returned, self\<lparr>yrange := newrange\<rparr>))"
  by (cases "sources self") (simp_all add: set_x_range_def set_y_range_def set_1d_range_def)

theorem set_1d_range_name_error_witness:
  "sources (new_range\<lparr>sources := [image_a]\<rparr>) \<noteq> [] \<and>
   set_x_range user_range1 (new_range\<lparr>sources := [image_a]\<rparr>) =
     (Raised NameError, new_range\<lparr>sources := [image_a]\<rparr>) \<and>
   xrange (snd (set_x_range user_range1 (new_range\<lparr>sources := [image_a]\<rparr>))) = new_range1 \<and>
   set_y_range user_range1 (new_range\<lparr>sources := [image_a]\<rparr>) =
     (Raised NameError, new_range\<lparr>sources := [image_a]\<rparr>) \<and>
   sources new_range = [] \<and>
   set_x_range user_range1 new_range = (Returned, new_range\<lparr>xrange := user_range1\<rparr>) \<and>
   set_y_range user_range1 new_range = (Returned, new_range\<lparr>yrange := user_range1\<rparr>) \<and>
   get_low (snd (set_x_range user_range1 new_range)) = (2, 0)"
  using set_1d_range_name_error [of "new_range\<lparr>sources := [image_a]\<rparr>" user_range1]
    set_1d_range_name_error [of new_range user_range1]
  by (simp add: new_range_def get_low_def user_range1_def new_range1_def)

subsection \<open>Sources added and removed\<close>

lemma refresh1_sources [simp]: "sources1 (refresh1 B r) = sources1 r"
  by (simp add: refresh1_def refresh_bounds1_def)

lemma fresh1_refresh1 [simp]: "fresh1 B (refresh1 B r)"
  by (simp add: fresh1_def refresh1_def refresh_bounds1_def)

lemma add1_sources:
  "set (sources1 (add1 B d r)) = insert d (set (sources1 r))"
  "distinct (sources1 r) \<Longrightarrow> distinct (sources1 (add1 B d r))"
  "fresh1 B r \<Longrightarrow> fresh1 B (add1 B d r)"
  by (auto simp: add1_def)

lemma remove_source1_sources:
  "distinct (sources1 r) \<Longrightarrow> set (sources1 (remove_source1 B d r)) = set (sources1 r) - {d}"
  "distinct (sources1 r) \<Longrightarrow> distinct (sources1 (remove_source1 B d r))"
  "fresh1 B r \<Longrightarrow> fresh1 B (remove_source1 B d r)"
  by (auto simp: remove_source1_def)

lemma fold_detach:
  assumes "distinct (sources1 (xrange r))" and "distinct (sources1 (yrange r))"
  shows "listeners (fold (detach_source B) rs r) = listeners r - set rs \<and>
         sources (fold (detach_source B) rs r) = sources r \<and>
         set (sources1 (xrange (fold (detach_source B) rs r))) =
           set (sources1 (xrange r)) - xdata ` set rs \<and>
         set (sources1 (yrange (fold (detach_source B) rs r))) =
           set (sources1 (yrange r)) - ydata ` set rs \<and>
         distinct (sources1 (xrange (fold (detach_source B) rs r))) \<and>
         distinct (sources1 (yrange (fold (detach_source B) rs r)))"
  using assms
proof (induction rs arbitrary: r)
  case Nil
  then show ?case by simp
next
  case (Cons a rs)
  have d: "distinct (sources1 (xrange (detach_source B a r)))"
    "distinct (sources1 (yrange (detach_source B a r)))"
    using Cons.prems by (simp_all add: detach_source_def remove_source1_sources)
  have s: "listeners (detach_source B a r) = listeners r - {a}"
    "sources (detach_source B a r) = sources r"
    "set (sources1 (xrange (detach_source B a r))) = set (sources1 (xrange r)) - {xdata a}"
    "set (sources1 (yrange (detach_source B a r))) = set (sources1 (yrange r)) - {ydata a}"
    using Cons.prems by (simp_all add: detach_source_def remove_source1_sources)
  from Cons.IH[OF d] show ?case
    by (simp add: s) blast
qed

lemma fold_attach:
  assumes "distinct (sources1 (xrange r))" and "distinct (sources1 (yrange r))"
  shows "listeners (fold (attach_source B) as r) = listeners r \<union> set as \<and>
         sources (fold (attach_source B) as r) = sources r \<and>
         set (sources1 (xrange (fold (attach_source B) as r))) =
           set (sources1 (xrange r)) \<union> xdata ` set as \<and>
         set (sources1 (yrange (fold (attach_source B) as r))) =
           set (sources1 (yrange r)) \<union> ydata ` set as \<and>
         distinct (sources1 (xrange (fold (attach_source B) as r))) \<and>
         distinct (sources1 (yrange (fold (attach_source B) as r)))"
  using assms
proof (induction as arbitrary: r)
  case Nil
  then show ?case by simp
next
  case (Cons a as)
  have d: "distinct (sources1 (xrange (attach_source B a r)))"
    "distinct (sources1 (yrange (attach_source B a r)))"
    using Cons.prems by (simp_all add: attach_source_def add1_sources)
  have s: "listeners (attach_source B a r) = insert a (listeners r)"
    "sources (attach_source B a r) = sources r"
    "set (sources1 (xrange (attach_source B a r))) = insert (xdata a) (set (sources1 (xrange r)))"
    "set (sources1 (yrange (attach_source B a r))) = insert (ydata a) (set (sources1 (yrange r)))"
    by (simp_all add: attach_source_def add1_sources)
  from Cons.IH[OF d] show ?case
    by (simp add: s)
qed

lemma fold_detach_fresh:
  "fresh1 B (xrange r) \<and> fresh1 B (yrange r) \<Longrightarrow>
   fresh1 B (xrange (fold (detach_source B) rs r)) \<and> fresh1 B (yrange (fold (detach_source B) rs r))"
  by (induction rs arbitrary: r) (simp_all add: detach_source_def remove_source1_sources)

lemma fold_attach_fresh:
  "fresh1 B (xrange r) \<and> fresh1 B (yrange r) \<Longrightarrow>
   fresh1 B (xrange (fold (attach_source B) as r)) \<and> fresh1 B (yrange (fold (attach_source B) as r))"
  by (induction as arbitrary: r) (simp_all add: attach_source_def add1_sources)

lemma refresh_frame [simp]:
  "listeners (refresh B r) = listeners r"
  "sources (refresh B r) = sources r"
  "sources1 (xrange (refresh B r)) = sources1 (xrange r)"
  "sources1 (yrange (refresh B r)) = sources1 (yrange r)"
  by (simp_all add: refresh_def refresh_bounds_def)

lemma refresh_fresh:
  "auto_in (low_setting_p r) \<or> auto_in (high_setting_p r) \<Longrightarrow>
   fresh1 B (xrange (refresh B r)) \<and> fresh1 B (yrange (refresh B r))"
  by (auto simp: refresh_def refresh_bounds_def)

text \<open>
  C6. When items are added to or removed from the sources of a two-dimensional range
  (\<open>_sources_items_changed\<close>, and \<open>_sources_changed\<close>, which does the same with
  \<open>old\<close> and \<open>new\<close>): the range is refreshed (with nothing removed or added the
  handler is \<open>refresh()\<close>, and whenever \<open>refresh()\<close> recomputes, the \<open>'auto'\<close> bounds
  of both one-dimensional ranges are up to date afterwards); every removed source has
  its listener detached and its \<open>_xdata\<close> and \<open>_ydata\<close> removed from the x and y
  ranges, and then every added source has a listener attached and its \<open>_xdata\<close> and
  \<open>_ydata\<close> added to them. The one-dimensional ranges hold no source twice.
\<close>

theorem sources_handlers:
  assumes dx: "distinct (sources1 (xrange self))" and dy: "distinct (sources1 (yrange self))"
  shows "sources_changed B removed added self = sources_items_changed B removed added self \<and>
         sources_items_changed B [] [] self = refresh B self \<and>
         listeners (sources_items_changed B removed added self) =
           (listeners self - set removed) \<union> set added \<and>
         set (sources1 (xrange (sources_items_changed B removed added self))) =
           (set (sources1 (xrange self)) - xdata ` set removed) \<union> xdata ` set added \<and>
         set (sources1 (yrange (sources_items_changed B removed added self))) =
           (set (sources1 (yrange self)) - ydata ` set removed) \<union> ydata ` set added \<and>
         (auto_in (low_setting_p self) \<or> auto_in (high_setting_p self) \<longrightarrow>
            fresh1 B (xrange (sources_items_changed B removed added self)) \<and>
            fresh1 B (yrange (sources_items_changed B removed added self)))"
proof -
  define r1 where "r1 = refresh B self"
  define r2 where "r2 = fold (detach_source B) removed r1"
  have d1: "distinct (sources1 (xrange r1))" "distinct (sources1 (yrange r1))"
    using dx dy by (simp_all add: r1_def)
  note f2 = fold_detach[OF d1, of B removed, folded r2_def]
  from f2 have d2: "distinct (sources1 (xrange r2))" "distinct (sources1 (yrange r2))" by blast+
  note f3 = fold_attach[OF d2, of B added]
  have res: "sources_items_changed B removed added self = fold (attach_source B) added r2"
    by (simp add: sources_items_changed_def r2_def r1_def)
  have fr: "fresh1 B (xrange (fold (attach_source B) added r2)) \<and>
            fresh1 B (yrange (fold (attach_source B) added r2))"
    if "auto_in (low_setting_p self) \<or> auto_in (high_setting_p self)"
    unfolding r2_def r1_def
    by (intro fold_attach_fresh fold_detach_fresh refresh_fresh that)
  have e: "sources_changed B removed added self = sources_items_changed B removed added self"
    by (simp add: sources_changed_def sources_items_changed_def)
  have z: "sources_items_changed B [] [] self = refresh B self"
    by (simp add: sources_items_changed_def)
  from f2 f3 have l: "listeners (sources_items_changed B removed added self) =
           (listeners self - set removed) \<union> set added"
    and x: "set (sources1 (xrange (sources_items_changed B removed added self))) =
           (set (sources1 (xrange self)) - xdata ` set removed) \<union> xdata ` set added"
    and y: "set (sources1 (yrange (sources_items_changed B removed added self))) =
           (set (sources1 (yrange self)) - ydata ` set removed) \<union> ydata ` set added"
    unfolding res by (simp_all add: r1_def)
  from fr have f: "auto_in (low_setting_p self) \<or> auto_in (high_setting_p self) \<longrightarrow>
            fresh1 B (xrange (sources_items_changed B removed added self)) \<and>
            fresh1 B (yrange (sources_items_changed B removed added self))"
    unfolding res by blast
  from e z l x y f show ?thesis by blast
qed


lemmas range_defs = sources_items_changed_def sources_changed_def attach_source_def
  detach_source_def add1_def remove_source1_def refresh1_def refresh_bounds1_def refresh_def
  refresh_bounds_def auto_in_def new_range_def new_range1_def image_a_def image_b_def extent_def

theorem sources_handlers_witness:
  "distinct (sources1 (xrange range_a)) \<and> distinct (sources1 (yrange range_a)) \<and>
   listeners range_a = {image_a} \<and>
   sources1 (xrange range_a) = [10] \<and> sources1 (yrange range_a) = [11] \<and>
   get_low range_a = (10, 11) \<and>
   sources_changed extent [image_a] [image_b] range_a =
     sources_items_changed extent [image_a] [image_b] range_a \<and>
   listeners (sources_items_changed extent [image_a] [image_b] range_a) = {image_b} \<and>
   set (sources1 (xrange (sources_items_changed extent [image_a] [image_b] range_a))) = {20} \<and>
   set (sources1 (yrange (sources_items_changed extent [image_a] [image_b] range_a))) = {21} \<and>
   fresh1 extent (xrange (sources_items_changed extent [image_a] [image_b] range_a)) \<and>
   fresh1 extent (yrange (sources_items_changed extent [image_a] [image_b] range_a)) \<and>
   get_low (sources_items_changed extent [image_a] [image_b] range_a) = (20, 21)"
proof -
  have a: "sources1 (xrange range_a) = [10]" "sources1 (yrange range_a) = [11]"
    "listeners range_a = {image_a}" "get_low range_a = (10, 11)"
    "auto_in (low_setting_p range_a)"
    by (simp_all add: range_a_def range_defs get_low_def)
  then have d: "distinct (sources1 (xrange range_a))" "distinct (sources1 (yrange range_a))"
    by simp_all
  have ne: "image_a \<noteq> image_b" "xdata image_a = 10" "xdata image_b = 20"
    "ydata image_a = 11" "ydata image_b = 21"
    by (simp_all add: image_a_def image_b_def)
  have g: "get_low (sources_items_changed extent [image_a] [image_b] range_a) = (20, 21)"
    by (simp add: range_a_def range_defs get_low_def)
  from sources_handlers [OF d, of extent "[image_a]" "[image_b]"] a d ne g
  show ?thesis by simp
qed

subsection \<open>The arrowhead\<close>

lemma norm2_nonneg: "0 \<le> norm2 a"
  by (simp add: norm2_def)















end
